theory Spec2Isabelle
  imports Complex_Main
begin

section \<open>Python strings\<close>

text \<open>
  A Python \<open>str\<close> is modelled as a \<open>string\<close>, one \<open>char\<close> per code point; the model
  covers text whose code points are below 256.  \<open>is_space\<close> is the test that
  \<open>str.strip()\<close> applies to such a code point: the ASCII white space
  (9 to 13, 28 to 32) and the two Latin-1 ones (133 and 160).
\<close>

definition is_space :: "char \<Rightarrow> bool" where
  "is_space c =
     (let n = (of_char c :: nat)
      in (9 \<le> n \<and> n \<le> 13) \<or> (28 \<le> n \<and> n \<le> 32) \<or> n = 133 \<or> n = 160)"

definition lstrip :: "string \<Rightarrow> string" where
  "lstrip s = dropWhile is_space s"

definition rstrip :: "string \<Rightarrow> string" where
  "rstrip s = rev (dropWhile is_space (rev s))"

definition strip :: "string \<Rightarrow> string" where
  "strip s = lstrip (rstrip s)"

text \<open>\<open>s.rstrip(chars)\<close> and \<open>s.strip(chars)\<close> with an explicit set of characters.\<close>

definition rstrip_chars :: "string \<Rightarrow> string \<Rightarrow> string" where
  "rstrip_chars cs s = rev (dropWhile (\<lambda>c. c \<in> set cs) (rev s))"

definition strip_chars :: "string \<Rightarrow> string \<Rightarrow> string" where
  "strip_chars cs s = dropWhile (\<lambda>c. c \<in> set cs) (rstrip_chars cs s)"

definition startswith :: "string \<Rightarrow> string \<Rightarrow> bool" where
  "startswith p s = (take (length p) s = p)"

definition endswith :: "string \<Rightarrow> string \<Rightarrow> bool" where
  "endswith p s = (length p \<le> length s \<and> drop (length s - length p) s = p)"

text \<open>\<open>s.split(c)\<close>: every occurrence of the separator cuts; the result is never empty.\<close>

fun split :: "char \<Rightarrow> string \<Rightarrow> string list" where
  "split c [] = [[]]"
| "split c (x # xs) =
     (if x = c then [] # split c xs
      else (case split c xs of [] \<Rightarrow> [[x]] | w # ws \<Rightarrow> (x # w) # ws))"

text \<open>\<open>s.split(c, n)\<close>: at most \<open>n\<close> cuts, from the left.\<close>

fun split_max :: "char \<Rightarrow> nat \<Rightarrow> string \<Rightarrow> string list" where
  "split_max c 0 s = [s]"
| "split_max c (Suc n) s =
     (if c \<in> set s
      then takeWhile (\<lambda>x. x \<noteq> c) s # split_max c n (tl (dropWhile (\<lambda>x. x \<noteq> c) s))
      else [s])"

section \<open>Errors\<close>

datatype error =
    ValueError string
  | TypeError string
  | KeyError string
  | IndexError
  | AttributeError
  | SyntaxError
  | ZeroDivisionError
  | DimensionalityError
  | OtherError

definition ebind :: "error + 'a \<Rightarrow> ('a \<Rightarrow> error + 'b) \<Rightarrow> error + 'b" where
  "ebind m f = (case m of Inl e \<Rightarrow> Inl e | Inr x \<Rightarrow> f x)"

section \<open>pint/definitions.py\<close>

text \<open>
  Modelled from the spec: \<open>pint/converters.py\<close> is not among the sources.  Section 3 of
  the specification gives the two converters: \<open>ScaleConverter(scale)\<close> with
  \<open>to_reference(x) = x*scale\<close> and \<open>from_reference(x) = x/scale\<close>, and
  \<open>OffsetConverter(scale, offset)\<close> with \<open>to_reference(x) = x*scale + offset\<close> and
  \<open>from_reference(x) = (x-offset)/scale\<close>; only the first is multiplicative.
\<close>

datatype converter = ScaleConverter real | OffsetConverter real real

fun converter_is_multiplicative :: "converter \<Rightarrow> bool" where
  "converter_is_multiplicative (ScaleConverter s) = True"
| "converter_is_multiplicative (OffsetConverter s off) = False"

fun to_reference :: "converter \<Rightarrow> real \<Rightarrow> real" where
  "to_reference (ScaleConverter s) x = x * s"
| "to_reference (OffsetConverter s off) x = x * s + off"

text \<open>The division by a scale that is zero raises.\<close>

fun from_reference :: "converter \<Rightarrow> real \<Rightarrow> error + real" where
  "from_reference (ScaleConverter s) x =
     (if s = 0 then Inl ZeroDivisionError else Inr (x / s))"
| "from_reference (OffsetConverter s off) x =
     (if s = 0 then Inl ZeroDivisionError else Inr ((x - off) / s))"

text \<open>
  \<open>ParserHelper\<close> and \<open>UnitsContainer\<close> live in \<open>pint/util.py\<close>, which is not among
  the sources.  A parsed expression is its numeric scale and its (name, exponent) items;
  \<open>ParserHelper.from_string\<close> is a parameter \<open>ph\<close> of the constructors below, and
  Python's \<open>eval\<close>, used on prefix values and on modifier values, is a parameter \<open>ev\<close>
  restricted to numeric results.
\<close>

type_synonym units_container = "(string \<times> real) list"

record parser_helper =
  scale :: real
  items :: units_container

definition keys :: "parser_helper \<Rightarrow> string list" where
  "keys p = map fst (items p)"

text \<open>
  Modelled from the spec: \<open>_is_dim\<close> of \<open>pint/util.py\<close> is not among the sources.
  Section 4.1 of the specification: a key is a dimension name when it matches the
  pattern \<open>[...]\<close>.
\<close>

definition is_dim :: "string \<Rightarrow> bool" where
  "is_dim name = (name \<noteq> [] \<and> hd name = CHR ''['' \<and> last name = CHR '']'')"

text \<open>
  The four classes.  \<open>d_name\<close>, \<open>d_symbol\<close>, \<open>d_aliases\<close> and \<open>d_converter\<close> are
  the attributes \<open>_name\<close>, \<open>_symbol\<close>, \<open>_aliases\<close> and \<open>_converter\<close> that
  \<open>Definition.__init__\<close> stores; \<open>reference\<close> and \<open>is_base\<close> exist on unit and
  dimension definitions only.
\<close>

datatype Definition =
    is_PrefixDefinition: PrefixDefinition (d_name: string) (d_symbol: "string option")
      (d_aliases: "string list") (d_converter: "converter option")
  | is_UnitDefinition: UnitDefinition (d_name: string) (d_symbol: "string option")
      (d_aliases: "string list") (d_converter: "converter option")
      (reference: "units_container option") (is_base: bool)
  | is_DimensionDefinition: DimensionDefinition (d_name: string) (d_symbol: "string option")
      (d_aliases: "string list") (d_converter: "converter option")
      (reference: "units_container option") (is_base: bool)
  | is_AliasDefinition: AliasDefinition (d_name: string) (d_symbol: "string option")
      (d_aliases: "string list") (d_converter: "converter option")

text \<open>The properties of \<open>Definition\<close>.\<close>

definition name :: "Definition \<Rightarrow> string" where
  "name d = d_name d"

text \<open>\<open>self._symbol or self._name\<close>: \<open>None\<close> and the empty string are both false.\<close>

definition symbol :: "Definition \<Rightarrow> string" where
  "symbol d = (case d_symbol d of None \<Rightarrow> d_name d
               | Some s \<Rightarrow> if s = [] then d_name d else s)"

definition has_symbol :: "Definition \<Rightarrow> bool" where
  "has_symbol d = (case d_symbol d of None \<Rightarrow> False | Some s \<Rightarrow> s \<noteq> [])"

definition aliases :: "Definition \<Rightarrow> string list" where
  "aliases d = d_aliases d"

text \<open>\<open>self._converter.is_multiplicative\<close>: an attribute error when the converter is \<open>None\<close>.\<close>

definition is_multiplicative :: "Definition \<Rightarrow> error + bool" where
  "is_multiplicative d = (case d_converter d of None \<Rightarrow> Inl AttributeError
                          | Some c \<Rightarrow> Inr (converter_is_multiplicative c))"

text \<open>The \<open>converter\<close> argument of a constructor is a string or a converter object.\<close>

datatype converter_arg = CStr string | CObj converter

definition PrefixDefinition_init ::
  "(string \<Rightarrow> error + real) \<Rightarrow> string \<Rightarrow> string option \<Rightarrow> string list \<Rightarrow> converter_arg
     \<Rightarrow> error + Definition" where
  "PrefixDefinition_init ev nm smb als conv =
     ebind (case conv of CStr s \<Rightarrow> ebind (ev s) (\<lambda>v. Inr (ScaleConverter v))
                       | CObj c \<Rightarrow> Inr c)
       (\<lambda>c. Inr (PrefixDefinition nm
                   (case smb of None \<Rightarrow> None
                    | Some s \<Rightarrow> if s = [] then Some s else Some (strip_chars ''-'' s))
                   (map (strip_chars ''-'') als) (Some c)))"

text \<open>
  The modifiers after the semicolon: each part is cut at its colons and must give exactly
  a key and a value; the dictionary keeps the last value of a repeated key.
\<close>

fun parse_modifiers ::
  "(string \<Rightarrow> error + real) \<Rightarrow> string list \<Rightarrow> (string \<rightharpoonup> real) \<Rightarrow> error + (string \<rightharpoonup> real)" where
  "parse_modifiers ev [] m = Inr m"
| "parse_modifiers ev (part # parts) m =
     (case split CHR '':'' part of
        [key, val] \<Rightarrow> ebind (ev val) (\<lambda>v. parse_modifiers ev parts (m(strip key \<mapsto> v)))
      | _ \<Rightarrow> Inl (ValueError ''unpack''))"

definition cannot_mix :: string where
  "cannot_mix = ''Cannot mix dimensions and units in the same definition. '' @
                ''Base units must be referenced only to dimensions. '' @
                ''Derived units must be referenced only to units.''"

text \<open>The value of a unit: the expression, and the modifiers after a semicolon if any.\<close>

definition split_modifiers ::
  "(string \<Rightarrow> error + real) \<Rightarrow> string \<Rightarrow> error + string \<times> (string \<rightharpoonup> real)" where
  "split_modifiers ev s =
     (if CHR '';'' \<in> set s
      then (case split_max CHR '';'' (Suc (Suc 0)) s of
              [c, mods] \<Rightarrow>
                ebind (parse_modifiers ev (split CHR '';'' mods) Map.empty) (\<lambda>m. Inr (c, m))
            | _ \<Rightarrow> Inl (ValueError ''unpack''))
      else Inr (s, Map.empty))"

text \<open>\<open>modifiers.get('offset', 0.) != 0.\<close> chooses between the two converters.\<close>

definition choose_converter :: "(string \<rightharpoonup> real) \<Rightarrow> real \<Rightarrow> converter" where
  "choose_converter modifiers sc =
     (if (case modifiers ''offset'' of None \<Rightarrow> 0 | Some off \<Rightarrow> off) \<noteq> 0
      then (case modifiers ''offset'' of None \<Rightarrow> ScaleConverter sc
            | Some off \<Rightarrow> OffsetConverter sc off)
      else ScaleConverter sc)"

definition UnitDefinition_init ::
  "(string \<Rightarrow> error + parser_helper) \<Rightarrow> (string \<Rightarrow> error + real) \<Rightarrow>
     string \<Rightarrow> string option \<Rightarrow> string list \<Rightarrow> converter_arg \<Rightarrow>
     units_container option \<Rightarrow> bool \<Rightarrow> error + Definition" where
  "UnitDefinition_init ph ev nm smb als conv ref0 is_base0 =
     (case conv of
        CObj c \<Rightarrow> Inr (UnitDefinition nm smb als (Some c) ref0 is_base0)
      | CStr s \<Rightarrow>
          ebind (split_modifiers ev s)
            (\<lambda>(c, modifiers).
               ebind (ph c)
                 (\<lambda>p. ebind
                        (if \<not> list_ex is_dim (keys p) then Inr False
                         else if list_all is_dim (keys p) then Inr True
                         else Inl (ValueError cannot_mix))
                        (\<lambda>b. Inr (UnitDefinition nm smb als
                               (Some (choose_converter modifiers (scale p)))
                               (Some (items p)) b)))))"

definition must_be_none :: string where
  "must_be_none = ''Base dimensions must be referenced to None. '' @
                  ''Derived dimensions must only be referenced to dimensions.''"

text \<open>
  \<open>if not converter\<close>: the truth value of a parsed expression is taken to be that of a
  mapping, false when it has no item.
\<close>

definition DimensionDefinition_init ::
  "(string \<Rightarrow> error + parser_helper) \<Rightarrow>
     string \<Rightarrow> string option \<Rightarrow> string list \<Rightarrow> converter_arg \<Rightarrow>
     units_container option \<Rightarrow> bool \<Rightarrow> error + Definition" where
  "DimensionDefinition_init ph nm smb als conv ref0 is_base0 =
     (case conv of
        CObj c \<Rightarrow> Inr (DimensionDefinition nm smb als None ref0 is_base0)
      | CStr s \<Rightarrow>
          ebind (ph s)
            (\<lambda>p. ebind
                   (if items p = [] then Inr True
                    else if list_all is_dim (keys p) then Inr False
                    else Inl (ValueError must_be_none))
                   (\<lambda>b. Inr (DimensionDefinition nm smb als None (Some (items p)) b))))"

definition AliasDefinition_init :: "string \<Rightarrow> string list \<Rightarrow> Definition" where
  "AliasDefinition_init nm als = AliasDefinition nm None als None"

text \<open>
  The symbol and the aliases that \<open>Definition.from_string\<close> takes from the tokens
  after the value: empty tokens go first, then the first token left is the symbol,
  \<open>None\<close> when it is \<open>_\<close>, and the others are the aliases, without the \<open>_\<close> ones.
\<close>

definition symbol_and_aliases :: "string list \<Rightarrow> string option \<times> string list" where
  "symbol_and_aliases toks =
     (let als = filter (\<lambda>x. x \<noteq> []) toks;
          (smb, als) = (case als of [] \<Rightarrow> (None, als) | s # rest \<Rightarrow> (Some s, rest));
          smb = (if smb = Some ''_'' then None else smb)
      in (smb, filter (\<lambda>x. x \<noteq> ''_'') als))"

definition from_string ::
  "(string \<Rightarrow> error + parser_helper) \<Rightarrow> (string \<Rightarrow> error + real) \<Rightarrow> string
     \<Rightarrow> error + Definition" where
  "from_string ph ev line =
     (case split_max CHR ''='' (Suc 0) line of
        [name0, rest] \<Rightarrow>
          (let nm = strip name0;
               result = map strip (split CHR ''='' rest)
           in if startswith ''@alias '' nm
              then Inr (AliasDefinition_init (lstrip (drop (length ''@alias '') nm)) result)
              else (case result of
                      [] \<Rightarrow> Inl IndexError
                    | val # toks \<Rightarrow>
                        (case symbol_and_aliases toks of
                           (smb, als) \<Rightarrow>
                             if startswith ''['' nm
                             then DimensionDefinition_init ph nm smb als (CStr val) None False
                             else if endswith ''-'' nm
                             then PrefixDefinition_init ev (rstrip_chars ''-'' nm) smb als (CStr val)
                             else UnitDefinition_init ph ev nm smb als (CStr val) None False)))
      | _ \<Rightarrow> Inl (ValueError ''unpack''))"

section \<open>pint/registry_helpers.py\<close>

text \<open>
  The helpers whose names start with an underscore keep their names without it;
  \<open>_to_units_container\<close> and \<open>_converter\<close>, whose names are then taken, are
  \<open>to_units_container'\<close> and \<open>converter'\<close>.
\<close>

text \<open>
  A Python value that a wrapped function takes or returns: a number, a quantity (with
  the registry whose \<open>Quantity\<close> class built it, its magnitude and its units), a
  tuple or list of values, or \<open>None\<close>.
\<close>

datatype pyval =
    Num real
  | Quantity nat real units_container
  | Tuple "pyval list"
  | NoneVal

text \<open>\<open>getattr(value, "_magnitude", value)\<close> and \<open>getattr(value, "_units", UnitsContainer({}))\<close>.\<close>

fun magnitude_of :: "pyval \<Rightarrow> pyval" where
  "magnitude_of (Quantity r m u) = Num m"
| "magnitude_of v = v"

fun units_of :: "pyval \<Rightarrow> units_container" where
  "units_of (Quantity r m u) = u"
| "units_of v = []"

text \<open>
  The registry is used through three of its members: \<open>ureg._convert\<close>, the class
  \<open>ureg.Quantity\<close> as a constructor, and the same class in \<open>isinstance\<close>, which
  holds of the quantities that this registry built.
\<close>

record registry =
  reg_id :: nat
  convert :: "pyval \<Rightarrow> units_container \<Rightarrow> units_container \<Rightarrow> error + pyval"
  new_quantity :: "pyval \<Rightarrow> units_container \<Rightarrow> error + pyval"

fun is_quantity_of :: "registry \<Rightarrow> pyval \<Rightarrow> bool" where
  "is_quantity_of ureg (Quantity r m u) = (r = reg_id ureg)"
| "is_quantity_of ureg v = False"

text \<open>A declared unit: \<open>None\<close>, a string, or a units container.\<close>

datatype unit_arg = ArgNone | ArgStr string | ArgUnits units_container

text \<open>
  What the helpers take from modules that are not among the sources:
  \<open>to_units_container(a, registry)\<close> of \<open>pint/util.py\<close>, with the identity of the
  registry when one is passed; whether a units container is an instance of \<open>dict\<close>;
  and the product and power of values, which \<open>pint/quantity.py\<close> defines on quantities.
  The last member belongs to Python itself.  The language does not fix the order in
  which a set is visited; CPython visits a set of integers by their places in its hash
  table.  For the set built by adding the indices \<open>xs\<close> one after the other,
  \<open>slot env xs i\<close> is the place of \<open>i\<close>, and \<open>set_order\<close> is the order of the visit.
\<close>

record outside =
  to_units_container :: "unit_arg \<Rightarrow> nat option \<Rightarrow> error + units_container option"
  uc_is_dict :: bool
  q_mul :: "pyval \<Rightarrow> pyval \<Rightarrow> error + pyval"
  q_pow :: "pyval \<Rightarrow> real \<Rightarrow> error + pyval"
  slot :: "nat list \<Rightarrow> nat \<Rightarrow> nat"

definition set_order :: "outside \<Rightarrow> nat list \<Rightarrow> nat list" where
  "set_order env xs = sort_key (slot env xs) xs"

text \<open>Reading a list at an index raises outside its range.\<close>

definition item :: "'a list \<Rightarrow> nat \<Rightarrow> error + 'a" where
  "item xs i = (if i < length xs then Inr (xs ! i) else Inl IndexError)"

fun emap :: "('a \<Rightarrow> error + 'b) \<Rightarrow> 'a list \<Rightarrow> error + 'b list" where
  "emap f [] = Inr []"
| "emap f (x # xs) = ebind (f x) (\<lambda>y. ebind (emap f xs) (\<lambda>ys. Inr (y # ys)))"

text \<open>
  \<open>_replace_units\<close>: the product of the named values to their exponents, starting
  from 1, and the units of the result.
\<close>

fun replace_units_loop ::
  "outside \<Rightarrow> units_container \<Rightarrow> (string \<rightharpoonup> pyval) \<Rightarrow> pyval \<Rightarrow> error + pyval" where
  "replace_units_loop env [] values_by_name q = Inr q"
| "replace_units_loop env ((arg_name, exponent) # rest) values_by_name q =
     (case values_by_name arg_name of
        None \<Rightarrow> Inl (KeyError arg_name)
      | Some v \<Rightarrow>
          ebind (q_pow env v exponent)
            (\<lambda>p. ebind (q_mul env q p)
               (\<lambda>q'. replace_units_loop env rest values_by_name q')))"

definition replace_units ::
  "outside \<Rightarrow> units_container \<Rightarrow> (string \<rightharpoonup> pyval) \<Rightarrow> error + units_container" where
  "replace_units env original_units values_by_name =
     ebind (replace_units_loop env original_units values_by_name (Num 1))
       (\<lambda>q. Inr (units_of q))"

text \<open>
  \<open>_to_units_container\<close>: a string with an \<open>=\<close> is a reference, and what follows the
  first \<open>=\<close> is converted without the registry.
\<close>

definition to_units_container' ::
  "outside \<Rightarrow> unit_arg \<Rightarrow> nat option \<Rightarrow> error + units_container option \<times> bool" where
  "to_units_container' env a registry =
     (case a of
        ArgStr s \<Rightarrow>
          if CHR ''='' \<in> set s
          then (case split_max CHR ''='' (Suc 0) s of
                  [l, r] \<Rightarrow> ebind (to_units_container env (ArgStr r) None) (\<lambda>u. Inr (u, True))
                | _ \<Rightarrow> Inl IndexError)
          else ebind (to_units_container env a registry) (\<lambda>u. Inr (u, False))
      | _ \<Rightarrow> ebind (to_units_container env a registry) (\<lambda>u. Inr (u, False)))"

text \<open>
  The state of \<open>_parse_wrap_args\<close>.  An entry of \<open>args_as_uc\<close> holds \<open>None\<close>, a units
  container, or, once the argument is found to define a name, that name.  The three sets
  of indices are kept as the lists of their elements in the order in which the loop adds
  them, each index once; the passes of the converter visit them in their \<open>set_order\<close>.
\<close>

datatype arg_entry = ENone | EUnits units_container | EKey string

record wrap_args =
  defs_args :: "string set"
  defs_args_ndx :: "nat list"
  dependent_args_ndx :: "nat list"
  unit_args_ndx :: "nat list"
  args_as_uc :: "(arg_entry \<times> bool) list"

fun entry_of :: "units_container option \<times> bool \<Rightarrow> arg_entry \<times> bool" where
  "entry_of (None, is_ref) = (ENone, is_ref)"
| "entry_of (Some u, is_ref) = (EUnits u, is_ref)"

text \<open>The loop over \<open>enumerate(args_as_uc)\<close>.\<close>

fun classify ::
  "nat \<Rightarrow> (units_container option \<times> bool) list \<Rightarrow> wrap_args \<Rightarrow> wrap_args" where
  "classify ndx [] w = w"
| "classify ndx ((None, is_ref) # rest) w = classify (Suc ndx) rest w"
| "classify ndx ((Some arg, is_ref) # rest) w =
     classify (Suc ndx) rest
       (if is_ref
        then (case arg of
                [(key, val)] \<Rightarrow>
                  if val = 1 \<and> key \<notin> defs_args w
                  then w\<lparr>defs_args := insert key (defs_args w),
                         defs_args_ndx := defs_args_ndx w @ [ndx],
                         args_as_uc := (args_as_uc w)[ndx := (EKey key, True)]\<rparr>
                  else w\<lparr>dependent_args_ndx := dependent_args_ndx w @ [ndx]\<rparr>
              | _ \<Rightarrow> w\<lparr>dependent_args_ndx := dependent_args_ndx w @ [ndx]\<rparr>)
        else w\<lparr>unit_args_ndx := unit_args_ndx w @ [ndx]\<rparr>)"

definition missing_token :: string where
  "missing_token = ''Found a missing token while wrapping a function: '' @
                   ''Not all variable referenced are defined using !''"

text \<open>The check of the dependent arguments, made on the entries that are dictionaries.\<close>

definition undefined_reference :: "wrap_args \<Rightarrow> nat \<Rightarrow> bool" where
  "undefined_reference w ndx =
     (case item (args_as_uc w) ndx of
        Inr (EUnits u, is_ref) \<Rightarrow> \<not> set (map fst u) \<subseteq> defs_args w
      | _ \<Rightarrow> False)"

definition parse_wrap_args :: "outside \<Rightarrow> unit_arg list \<Rightarrow> nat option \<Rightarrow> error + wrap_args" where
  "parse_wrap_args env args registry =
     ebind (emap (\<lambda>arg. to_units_container' env arg registry) args)
       (\<lambda>ucs.
          let w = classify 0 ucs
                    \<lparr>defs_args = {}, defs_args_ndx = [], dependent_args_ndx = [],
                     unit_args_ndx = [], args_as_uc = map entry_of ucs\<rparr>
          in if uc_is_dict env \<and> list_ex (undefined_reference w) (dependent_args_ndx w)
             then Inl (ValueError missing_token)
             else Inr w)"

text \<open>The three passes of \<open>_converter\<close>, on the new values and the values by name.\<close>

fun first_pass ::
  "wrap_args \<Rightarrow> pyval list \<Rightarrow> nat list \<Rightarrow> pyval list \<times> (string \<rightharpoonup> pyval)
     \<Rightarrow> error + pyval list \<times> (string \<rightharpoonup> pyval)" where
  "first_pass w vals [] st = Inr st"
| "first_pass w vals (ndx # rest) (new_values, values_by_name) =
     ebind (item vals ndx)
       (\<lambda>v. case item (args_as_uc w) ndx of
               Inr (EKey key, is_ref) \<Rightarrow>
                 first_pass w vals rest
                   (new_values[ndx := magnitude_of v], values_by_name(key \<mapsto> v))
             | _ \<Rightarrow> Inl (TypeError ''unhashable''))"

fun second_pass ::
  "outside \<Rightarrow> registry \<Rightarrow> wrap_args \<Rightarrow> pyval list \<Rightarrow> (string \<rightharpoonup> pyval) \<Rightarrow> nat list
     \<Rightarrow> pyval list \<Rightarrow> error + pyval list" where
  "second_pass env ureg w vals values_by_name [] new_values = Inr new_values"
| "second_pass env ureg w vals values_by_name (ndx # rest) new_values =
     ebind (item vals ndx)
       (\<lambda>v. case item (args_as_uc w) ndx of
               Inr (EUnits u, is_ref) \<Rightarrow>
                 ebind (replace_units env u values_by_name)
                   (\<lambda>dst. ebind (convert ureg (magnitude_of v) (units_of v) dst)
                      (\<lambda>x. second_pass env ureg w vals values_by_name rest
                              (new_values[ndx := x])))
             | _ \<Rightarrow> Inl AttributeError)"

definition requires_quantity :: string where
  "requires_quantity = ''A wrapped function using strict=True requires '' @
                       ''quantity for all arguments with not None units.''"

fun third_pass ::
  "registry \<Rightarrow> wrap_args \<Rightarrow> pyval list \<Rightarrow> bool \<Rightarrow> nat list \<Rightarrow> pyval list
     \<Rightarrow> error + pyval list" where
  "third_pass ureg w vals strict [] new_values = Inr new_values"
| "third_pass ureg w vals strict (ndx # rest) new_values =
     ebind (item vals ndx)
       (\<lambda>v. if is_quantity_of ureg v
             then (case item (args_as_uc w) ndx of
                     Inr (EUnits u, is_ref) \<Rightarrow>
                       ebind (convert ureg (magnitude_of v) (units_of v) u)
                         (\<lambda>x. third_pass ureg w vals strict rest (new_values[ndx := x]))
                   | _ \<Rightarrow> Inl AttributeError)
             else if strict then Inl (ValueError requires_quantity)
             else third_pass ureg w vals strict rest new_values)"

definition converter' ::
  "outside \<Rightarrow> wrap_args \<Rightarrow> registry \<Rightarrow> pyval list \<Rightarrow> bool
     \<Rightarrow> error + pyval list \<times> (string \<rightharpoonup> pyval)" where
  "converter' env w ureg vals strict =
     ebind (first_pass w vals (set_order env (defs_args_ndx w)) (vals, Map.empty))
       (\<lambda>(new_values, values_by_name).
          ebind (second_pass env ureg w vals values_by_name
                   (set_order env (dependent_args_ndx w)) new_values)
            (\<lambda>new_values.
               ebind (third_pass ureg w vals strict (set_order env (unit_args_ndx w)) new_values)
                 (\<lambda>new_values. Inr (new_values, values_by_name))))"

text \<open>
  A Python function, called with positional arguments only: the default of each of its
  parameters, if it has one, and what it computes from the values of all of them.
  \<open>_apply_defaults\<close> binds the arguments to the parameters, which fails when there
  are too many or when a parameter without a default is left, and fills in the defaults.
\<close>

record pyfunc =
  params :: "pyval option list"
  body :: "pyval list \<Rightarrow> error + pyval"

fun default_of :: "pyval option \<Rightarrow> pyval" where
  "default_of None = NoneVal"
| "default_of (Some v) = v"

definition apply_defaults :: "pyfunc \<Rightarrow> pyval list \<Rightarrow> error + pyval list" where
  "apply_defaults func args =
     (if length (params func) < length args
      then Inl (TypeError ''too many positional arguments'')
      else if list_ex (\<lambda>d. d = None) (drop (length args) (params func))
      then Inl (TypeError ''missing a required argument'')
      else Inr (args @ map default_of (drop (length args) (params func))))"

text \<open>
  The declared return units, as \<open>wraps\<close> keeps them: those of one value, or those of
  the values of a list or tuple, which the wrapper returns as a tuple or list of the
  same class.  The declared units of the arguments are always a list here: \<open>wraps\<close>
  makes a tuple of one element out of anything else.
\<close>

datatype ret_arg = RetOne unit_arg | RetMany "unit_arg list"

datatype ret_units =
    One "units_container option \<times> bool"
  | Many "(units_container option \<times> bool) list"

record wrapped =
  w_converter :: wrap_args
  w_ret :: ret_units
  w_ureg :: registry
  w_strict :: bool

definition wraps ::
  "outside \<Rightarrow> registry \<Rightarrow> ret_arg \<Rightarrow> unit_arg list \<Rightarrow> bool \<Rightarrow> error + wrapped" where
  "wraps env ureg ret args strict =
     ebind (parse_wrap_args env args None)
       (\<lambda>w. ebind
               (case ret of
                  RetMany rs \<Rightarrow>
                    ebind (emap (\<lambda>arg. to_units_container' env arg (Some (reg_id ureg))) rs)
                      (\<lambda>us. Inr (Many us))
                | RetOne r \<Rightarrow>
                    ebind (to_units_container' env r (Some (reg_id ureg))) (\<lambda>u. Inr (One u)))
               (\<lambda>r. Inr \<lparr>w_converter = w, w_ret = r, w_ureg = ureg, w_strict = strict\<rparr>))"

text \<open>
  The units of a returned value: a reference is replaced by the units of the named
  values.
\<close>

definition out_unit ::
  "outside \<Rightarrow> (string \<rightharpoonup> pyval) \<Rightarrow> units_container option \<times> bool
     \<Rightarrow> error + units_container option" where
  "out_unit env values_by_name r =
     (if snd r
      then (case fst r of
              None \<Rightarrow> Inl AttributeError
            | Some u \<Rightarrow> ebind (replace_units env u values_by_name) (\<lambda>x. Inr (Some x)))
      else Inr (fst r))"

definition attach :: "registry \<Rightarrow> units_container option \<Rightarrow> pyval \<Rightarrow> error + pyval" where
  "attach ureg unit res =
     (case unit of None \<Rightarrow> Inr res | Some u \<Rightarrow> new_quantity ureg res u)"

text \<open>\<open>zip_longest(out_units, result)\<close>, with \<open>None\<close> where one of the two is shorter.\<close>

fun attach_all ::
  "outside \<Rightarrow> registry \<Rightarrow> (string \<rightharpoonup> pyval) \<Rightarrow> (units_container option \<times> bool) list
     \<Rightarrow> pyval list \<Rightarrow> error + pyval list" where
  "attach_all env ureg values_by_name [] [] = Inr []"
| "attach_all env ureg values_by_name [] (res # results) =
     ebind (attach_all env ureg values_by_name [] results) (\<lambda>xs. Inr (res # xs))"
| "attach_all env ureg values_by_name (r # rs) [] =
     ebind (out_unit env values_by_name r)
       (\<lambda>unit. ebind (attach ureg unit NoneVal)
          (\<lambda>x. ebind (attach_all env ureg values_by_name rs []) (\<lambda>xs. Inr (x # xs))))"
| "attach_all env ureg values_by_name (r # rs) (res # results) =
     ebind (out_unit env values_by_name r)
       (\<lambda>unit. ebind (attach ureg unit res)
          (\<lambda>x. ebind (attach_all env ureg values_by_name rs results) (\<lambda>xs. Inr (x # xs))))"

definition finish ::
  "outside \<Rightarrow> wrapped \<Rightarrow> (string \<rightharpoonup> pyval) \<Rightarrow> pyval \<Rightarrow> error + pyval" where
  "finish env wd values_by_name result =
     (case w_ret wd of
        Many rs \<Rightarrow>
          (case result of
             Tuple results \<Rightarrow>
               ebind (attach_all env (w_ureg wd) values_by_name rs results) (\<lambda>xs. Inr (Tuple xs))
           | _ \<Rightarrow> Inl (TypeError ''not iterable''))
      | One r \<Rightarrow>
          (case fst r of
             None \<Rightarrow> Inr result
           | Some u \<Rightarrow>
               ebind (if snd r then replace_units env u values_by_name else Inr u)
                 (\<lambda>unit. new_quantity (w_ureg wd) result unit)))"

text \<open>The wrapper that the decorator returns, applied to the function and the arguments.\<close>

definition wrapper :: "outside \<Rightarrow> wrapped \<Rightarrow> pyfunc \<Rightarrow> pyval list \<Rightarrow> error + pyval" where
  "wrapper env wd func args =
     ebind (apply_defaults func args)
       (\<lambda>vals. ebind (converter' env (w_converter wd) (w_ureg wd) vals (w_strict wd))
          (\<lambda>(new_values, values_by_name).
             ebind (body func new_values) (finish env wd values_by_name)))"

section \<open>pint/__init__.py\<close>

text \<open>
  An object is known by its identity and its class; \<open>isinstance\<close> of
  \<open>(LazyRegistry, UnitRegistry)\<close> holds of the instances of these two classes, their
  subclasses counted with them.  The module keeps the default registry, a
  \<open>LazyRegistry\<close>, and the application registry, which starts as the default one.  The
  message that \<open>logger.debug\<close> is given is kept as the pair of the old and the new
  registry.
\<close>

datatype pyclass = LazyRegistry | UnitRegistry | OtherClass

datatype pyobject = Object (object_id: nat) (class_of: pyclass)

definition is_registry :: "pyobject \<Rightarrow> bool" where
  "is_registry ob = (class_of ob = LazyRegistry \<or> class_of ob = UnitRegistry)"

record module_state =
  DEFAULT_REGISTRY :: pyobject
  APP_REGISTRY :: pyobject
  debug_log :: "(pyobject \<times> pyobject) list"

definition initial_state :: module_state where
  "initial_state =
     \<lparr>DEFAULT_REGISTRY = Object 0 LazyRegistry, APP_REGISTRY = Object 0 LazyRegistry,
      debug_log = []\<rparr>"

definition set_application_registry ::
  "pyobject \<Rightarrow> module_state \<Rightarrow> (error + unit) \<times> module_state" where
  "set_application_registry registry s =
     (if \<not> is_registry registry
      then (Inl (TypeError ''Expected UnitRegistry''), s)
      else (Inr (),
            s\<lparr>debug_log := debug_log s @ [(APP_REGISTRY s, registry)],
              APP_REGISTRY := registry\<rparr>))"

definition get_application_registry :: "module_state \<Rightarrow> pyobject" where
  "get_application_registry s = APP_REGISTRY s"

section \<open>pint/errors.py\<close>

text \<open>The decimal digits of a line number, as \<open>str\<close> writes an integer.\<close>

definition digit :: "nat \<Rightarrow> char" where
  "digit d = ''0123456789'' ! d"

function show_nat :: "nat \<Rightarrow> string" where
  "show_nat n = (if n < 10 then [digit n] else show_nat (n div 10) @ [digit (n mod 10)])"
  by pat_completeness auto
termination
  by (relation "measure id") auto

definition show_int :: "int \<Rightarrow> string" where
  "show_int i = (if i < 0 then CHR ''-'' # show_nat (nat (- i)) else show_nat (nat i))"

text \<open>
  Modelled from the spec: \<open>pint/errors.py\<close> is not among the sources, only its tests
  are.  Section 7 of the specification: a \<open>DefinitionSyntaxError\<close> carries a message
  and an optional file name and line number, which the loader may attach after the
  construction, and formats as \<open>While opening <file>, in line <n>: <msg>\<close> with either
  part omittable; a \<open>RedefinitionError\<close> carries the same two attributes and its message
  identifies the name and the kind of entity.  The texts of the parts are those that
  \<open>test_definition_syntax_error\<close> and \<open>test_redefinition_error\<close> expect.
\<close>

definition error_prefix :: "string option \<Rightarrow> int option \<Rightarrow> string" where
  "error_prefix filename lineno =
     (case filename of
        Some f \<Rightarrow>
          (case lineno of
             Some n \<Rightarrow> ''While opening '' @ f @ '', in line '' @ show_int n @ '': ''
           | None \<Rightarrow> ''While opening '' @ f @ '': '')
      | None \<Rightarrow>
          (case lineno of
             Some n \<Rightarrow> ''In line '' @ show_int n @ '': ''
           | None \<Rightarrow> []))"

record definition_syntax_error =
  dse_msg :: string
  dse_filename :: "string option"
  dse_lineno :: "int option"

definition DefinitionSyntaxError ::
  "string \<Rightarrow> string option \<Rightarrow> int option \<Rightarrow> definition_syntax_error" where
  "DefinitionSyntaxError msg filename lineno =
     \<lparr>dse_msg = msg, dse_filename = filename, dse_lineno = lineno\<rparr>"

definition str_definition_syntax_error :: "definition_syntax_error \<Rightarrow> string" where
  "str_definition_syntax_error ex = error_prefix (dse_filename ex) (dse_lineno ex) @ dse_msg ex"

record redefinition_error =
  re_name :: string
  re_definition_type :: string
  re_filename :: "string option"
  re_lineno :: "int option"

definition RedefinitionError ::
  "string \<Rightarrow> string \<Rightarrow> string option \<Rightarrow> int option \<Rightarrow> redefinition_error" where
  "RedefinitionError nm definition_type filename lineno =
     \<lparr>re_name = nm, re_definition_type = definition_type,
      re_filename = filename, re_lineno = lineno\<rparr>"

definition str_redefinition_error :: "redefinition_error \<Rightarrow> string" where
  "str_redefinition_error ex =
     error_prefix (re_filename ex) (re_lineno ex) @
     ''Cannot redefine '' @ [CHR 0x27] @ re_name ex @ [CHR 0x27] @
     '' ('' @ re_definition_type ex @ '')''"

section \<open>Sample parses\<close>

text \<open>
  Modelled from the spec: \<open>ParserHelper.from_string\<close> of \<open>pint/util.py\<close> is not among
  the sources.  This finite table holds its results on a few expressions, as section 4.2
  and section 8 of the specification give them (\<open>meter / second\<close> is scale 1 with
  meter to the power 1 and second to the power -1; a bare number is a scale with no unit).
  It is used to run the constructors on concrete lines only; every other string is a
  syntax error here.  \<open>ev_sample\<close> does the same for \<open>eval\<close> on three numerals.
\<close>

definition ph_sample :: "string \<Rightarrow> error + parser_helper" where
  "ph_sample s =
     (case map_of
        [(''meter / second'', \<lparr>scale = 1, items = [(''meter'', 1), (''second'', -1)]\<rparr>),
         (''2 * kilometer ** 2'', \<lparr>scale = 2, items = [(''kilometer'', 2)]\<rparr>),
         (''[length] / [time]'', \<lparr>scale = 1, items = [(''[length]'', 1), (''[time]'', -1)]\<rparr>),
         (''[length] / second'', \<lparr>scale = 1, items = [(''[length]'', 1), (''second'', -1)]\<rparr>),
         (''[temperature]'', \<lparr>scale = 1, items = [(''[temperature]'', 1)]\<rparr>),
         (''kelvin'', \<lparr>scale = 1, items = [(''kelvin'', 1)]\<rparr>),
         (''meter'', \<lparr>scale = 1, items = [(''meter'', 1)]\<rparr>),
         (''A'', \<lparr>scale = 1, items = [(''A'', 1)]\<rparr>),
         (''12'', \<lparr>scale = 12, items = []\<rparr>)] s of
        None \<Rightarrow> Inl SyntaxError | Some p \<Rightarrow> Inr p)"

definition ev_sample :: "string \<Rightarrow> error + real" where
  "ev_sample s =
     (case map_of [(''1000'', 1000), ('' 273.15'', 273.15), ('' 0'', 0)] s of
        None \<Rightarrow> Inl SyntaxError | Some v \<Rightarrow> Inr v)"

text \<open>
  A sample of what the wrapping helpers take from outside, for running them on concrete
  calls.  A string is converted to the items of its sample parse.  The products and
  powers of values are left out, as errors: the sample calls declare no dependent
  argument.  The place of an index in a set is the index itself, as it is in CPython
  for the integers below 8: the sample calls have at most two arguments.  The sample
  registry converts a value to the units it already has
  unchanged and centimeters to meters by the factor 1/100, and finds every other pair
  of units incompatible; it builds a quantity from a number only (\<open>_to_magnitude\<close> of
  \<open>pint/compat.py\<close> rejects \<open>None\<close> as a magnitude).
\<close>

definition env_sample :: outside where
  "env_sample =
     \<lparr>to_units_container =
        (\<lambda>a registry. case a of
           ArgNone \<Rightarrow> Inr None
         | ArgUnits u \<Rightarrow> Inr (Some u)
         | ArgStr s \<Rightarrow> (case ph_sample s of Inl e \<Rightarrow> Inl e | Inr p \<Rightarrow> Inr (Some (items p)))),
      uc_is_dict = False,
      q_mul = (\<lambda>a b. Inl OtherError),
      q_pow = (\<lambda>a e. Inl OtherError),
      slot = (\<lambda>xs i. i)\<rparr>"

definition convert_sample :: "pyval \<Rightarrow> units_container \<Rightarrow> units_container \<Rightarrow> error + pyval" where
  "convert_sample v src dst =
     (if src = dst then Inr v
      else if src = [(''centimeter'', 1)] \<and> dst = [(''meter'', 1)]
      then (case v of Num x \<Rightarrow> Inr (Num (x / 100)) | _ \<Rightarrow> Inl (TypeError ''magnitude''))
      else Inl DimensionalityError)"

definition ureg_sample :: registry where
  "ureg_sample =
     \<lparr>reg_id = 0,
      convert = convert_sample,
      new_quantity =
        (\<lambda>v u. case v of
           Num x \<Rightarrow> Inr (Quantity 0 x u)
         | _ \<Rightarrow> Inl (TypeError ''Invalid magnitude for Quantity''))\<rparr>"

text \<open>A sample function of one parameter without default: it doubles a number.\<close>

definition double_sample :: pyfunc where
  "double_sample =
     \<lparr>params = [None],
      body = (\<lambda>xs. case xs of [Num x] \<Rightarrow> Inr (Num (2 * x)) | _ \<Rightarrow> Inl (TypeError ''operand''))\<rparr>"

section \<open>Facts about the string functions\<close>

lemma takeWhile_sep: "c \<notin> set n \<Longrightarrow> takeWhile (\<lambda>x. x \<noteq> c) (n @ c # rest) = n"
  by (induction n) auto

lemma dropWhile_sep: "c \<notin> set n \<Longrightarrow> dropWhile (\<lambda>x. x \<noteq> c) (n @ c # rest) = c # rest"
  by (induction n) auto

lemma split_max_first:
  "c \<notin> set n \<Longrightarrow> split_max c (Suc 0) (n @ c # rest) = [n, rest]"
  by (simp add: takeWhile_sep dropWhile_sep)

lemma split_max_two:
  "c \<notin> set a \<Longrightarrow> c \<notin> set b \<Longrightarrow> split_max c (Suc (Suc 0)) (a @ c # b) = [a, b]"
  by (simp add: takeWhile_sep dropWhile_sep)

lemma split_not_Nil: "split c s \<noteq> []"
  by (induction s) (auto split: list.splits)

lemma split_no_sep: "c \<notin> set s \<Longrightarrow> split c s = [s]"
  by (induction s) auto

lemma split_append_sep: "c \<notin> set a \<Longrightarrow> split c (a @ c # b) = a # split c b"
  by (induction a) auto

lemma length_split: "length (split c s) = Suc (count_list s c)"
  by (induction s) (auto split: list.splits simp: split_not_Nil)

lemma rstrip_chars_decomp:
  "s = rstrip_chars [c] s @ replicate (length s - length (rstrip_chars [c] s)) c"
proof -
  let ?P = "\<lambda>x. x \<in> set [c]"
  have tw: "takeWhile ?P ys = replicate (length (takeWhile ?P ys)) c" for ys
    by (induction ys) auto
  have "rev s = takeWhile ?P (rev s) @ dropWhile ?P (rev s)" by simp
  then have "s = rev (dropWhile ?P (rev s)) @ rev (takeWhile ?P (rev s))"
    by (metis rev_append rev_rev_ident)
  moreover have "rev (takeWhile ?P (rev s)) = replicate (length (takeWhile ?P (rev s))) c"
    using tw[of "rev s"] by (metis rev_replicate)
  moreover have "length (takeWhile ?P (rev s)) = length s - length (rstrip_chars [c] s)"
    by (simp add: rstrip_chars_def length_dropWhile_le) (metis add_diff_cancel_right' length_append length_rev takeWhile_dropWhile_id)
  ultimately show ?thesis by (simp add: rstrip_chars_def)
qed

lemma endswith_single: "endswith [c] t \<longleftrightarrow> t \<noteq> [] \<and> last t = c"
  by (cases t rule: rev_cases) (auto simp: endswith_def)

lemma rstrip_chars_no_trailing: "\<not> endswith [c] (rstrip_chars [c] s)"
proof -
  let ?d = "dropWhile (\<lambda>x. x \<in> set [c]) (rev s)"
  have "?d = [] \<or> hd ?d \<noteq> c"
    using hd_dropWhile[of "\<lambda>x. x \<in> set [c]" "rev s"] by auto
  moreover have "rstrip_chars [c] s = rev ?d" by (simp add: rstrip_chars_def)
  ultimately show ?thesis
    by (auto simp add: endswith_single last_rev simp del: dropWhile_eq_Nil_conv set_simps)
qed

section \<open>Unit definitions\<close>

lemma parse_modifiers_single:
  assumes "CHR '':'' \<notin> set k" "CHR '':'' \<notin> set v" "ev v = Inr off"
  shows "parse_modifiers ev [k @ CHR '':'' # v] m = Inr (m(strip k \<mapsto> off))"
  using assms by (simp add: split_append_sep split_no_sep ebind_def)

lemma unit_init_plain:
  assumes "CHR '';'' \<notin> set c" "ph c = Inr p"
  shows "UnitDefinition_init ph ev nm smb als (CStr c) r b =
     (if \<not> list_ex is_dim (keys p)
      then Inr (UnitDefinition nm smb als (Some (ScaleConverter (scale p))) (Some (items p)) False)
      else if list_all is_dim (keys p)
      then Inr (UnitDefinition nm smb als (Some (ScaleConverter (scale p))) (Some (items p)) True)
      else Inl (ValueError cannot_mix))"
  using assms by (simp add: UnitDefinition_init_def split_modifiers_def choose_converter_def ebind_def)

lemma unit_init_modifier:
  assumes "CHR '';'' \<notin> set c" "ph c = Inr p"
    and "CHR '';'' \<notin> set k" "CHR '';'' \<notin> set v"
    and "CHR '':'' \<notin> set k" "CHR '':'' \<notin> set v" "ev v = Inr off"
  shows "UnitDefinition_init ph ev nm smb als (CStr (c @ CHR '';'' # k @ CHR '':'' # v)) r b =
     (let conv = (if strip k = ''offset'' \<and> off \<noteq> 0 then OffsetConverter (scale p) off
                  else ScaleConverter (scale p))
      in if \<not> list_ex is_dim (keys p)
         then Inr (UnitDefinition nm smb als (Some conv) (Some (items p)) False)
         else if list_all is_dim (keys p)
         then Inr (UnitDefinition nm smb als (Some conv) (Some (items p)) True)
         else Inl (ValueError cannot_mix))"
proof -
  have 1: "split_max CHR '';'' (Suc (Suc 0)) (c @ CHR '';'' # k @ CHR '':'' # v) = [c, k @ CHR '':'' # v]"
    using assms by (intro split_max_two) auto
  have 2: "split CHR '';'' (k @ CHR '':'' # v) = [k @ CHR '':'' # v]"
    using assms by (intro split_no_sep) auto
  have 3: "parse_modifiers ev [k @ CHR '':'' # v] Map.empty = Inr (Map.empty(strip k \<mapsto> off))"
    using assms by (intro parse_modifiers_single) auto
  show ?thesis
    unfolding UnitDefinition_init_def split_modifiers_def choose_converter_def using assms(2)
    by (simp add: 1 2 3 ebind_def Let_def del: split_max.simps split.simps parse_modifiers.simps)
qed

lemma split_max_two_hd:
  "split_max c (Suc (Suc 0)) s = [a, m] \<Longrightarrow> a = takeWhile (\<lambda>x. x \<noteq> c) s"
  by (auto split: if_splits)

lemma list_ex_all_nonempty:
  "(list_ex P xs \<and> list_all P xs) = (xs \<noteq> [] \<and> list_all P xs)"
  by (cases xs) auto

lemma takeWhile_no_sep: "c \<notin> set s \<Longrightarrow> takeWhile (\<lambda>x. x \<noteq> c) s = s"
  by (induction s) auto

lemma split_modifiers_fst:
  assumes "split_modifiers ev s = Inr (c, m)"
  shows "c = takeWhile (\<lambda>x. x \<noteq> CHR '';'') s"
proof (cases "CHR '';'' \<in> set s")
  case False
  with assms show ?thesis by (simp add: split_modifiers_def takeWhile_no_sep)
next
  case True
  with assms obtain c' mods where sm: "split_max CHR '';'' (Suc (Suc 0)) s = [c', mods]"
    unfolding split_modifiers_def
    by (auto simp del: split_max.simps split: list.splits)
  with assms True have "c' = c"
    unfolding split_modifiers_def by (simp add: ebind_def del: split_max.simps split: sum.splits)
  with split_max_two_hd[OF sm] show ?thesis by simp
qed

lemma unit_init_result:
  assumes "UnitDefinition_init ph ev nm smb als (CStr s) r b = Inr d"
  shows "\<exists>p. ph (takeWhile (\<lambda>x. x \<noteq> CHR '';'') s) = Inr p \<and>
             reference d = Some (items p) \<and> d_name d = nm \<and> d_symbol d = smb \<and> d_aliases d = als \<and>
             is_UnitDefinition d \<and>
             (if \<not> list_ex is_dim (keys p) then \<not> is_base d
              else list_all is_dim (keys p) \<and> is_base d)"
proof -
  from assms obtain c m where sm: "split_modifiers ev s = Inr (c, m)"
    unfolding UnitDefinition_init_def by (cases "split_modifiers ev s") (auto simp: ebind_def)
  from assms sm obtain p where p: "ph c = Inr p"
    unfolding UnitDefinition_init_def by (cases "ph c") (auto simp: ebind_def)
  have c: "c = takeWhile (\<lambda>x. x \<noteq> CHR '';'') s" using sm by (rule split_modifiers_fst)
  from assms show ?thesis
    unfolding UnitDefinition_init_def c[symmetric]
    by (auto simp: sm p ebind_def split: if_splits)
qed

text \<open>
  Claim C1, as the code has it.  When \<open>UnitDefinition\<close> is built from a string whose
  expression part (the text before the semicolon) parses to \<open>p\<close>: a reference that mixes
  dimension names and unit names makes the construction fail, with the error of reading
  the modifiers when that fails (more than one semicolon, a part without exactly one
  colon, a value that \<open>eval\<close> rejects) and with the \<open>ValueError\<close> that says
  \<open>Cannot mix dimensions and units\<close> otherwise, so always when the value has no
  semicolon; a construction that succeeds stores the items of \<open>p\<close> as the reference,
  with \<open>is_base\<close> true exactly when the reference is not empty and every key is a
  dimension name, and false exactly when no key is a dimension name, which an empty
  reference satisfies; and a reference that does not mix succeeds whenever the
  modifiers are read.
\<close>

theorem unit_definition_is_base:
  assumes "ph (takeWhile (\<lambda>x. x \<noteq> CHR '';'') s) = Inr p"
  shows "(list_ex is_dim (keys p) \<and> \<not> list_all is_dim (keys p) \<longrightarrow>
            UnitDefinition_init ph ev nm smb als (CStr s) r b =
              (case split_modifiers ev s of
                 Inl e \<Rightarrow> Inl e
               | Inr cm \<Rightarrow> Inl (ValueError cannot_mix)) \<and>
            (CHR '';'' \<notin> set s \<longrightarrow>
               UnitDefinition_init ph ev nm smb als (CStr s) r b = Inl (ValueError cannot_mix))) \<and>
         (\<forall>d. UnitDefinition_init ph ev nm smb als (CStr s) r b = Inr d \<longrightarrow>
            reference d = Some (items p) \<and>
            (is_base d \<longleftrightarrow> keys p \<noteq> [] \<and> list_all is_dim (keys p)) \<and>
            (\<not> is_base d \<longleftrightarrow> \<not> list_ex is_dim (keys p))) \<and>
         ((\<not> list_ex is_dim (keys p) \<or> list_all is_dim (keys p)) \<longrightarrow>
            (\<forall>cm. split_modifiers ev s = Inr cm \<longrightarrow>
               (\<exists>d. UnitDefinition_init ph ev nm smb als (CStr s) r b = Inr d)))"
proof -
  have run: "UnitDefinition_init ph ev nm smb als (CStr s) r b =
      (if \<not> list_ex is_dim (keys p)
       then Inr (UnitDefinition nm smb als (Some (choose_converter (snd cm) (scale p)))
                   (Some (items p)) False)
       else if list_all is_dim (keys p)
       then Inr (UnitDefinition nm smb als (Some (choose_converter (snd cm) (scale p)))
                   (Some (items p)) True)
       else Inl (ValueError cannot_mix))"
    if cm: "split_modifiers ev s = Inr cm" for cm
  proof -
    obtain c m where c: "cm = (c, m)" by (cases cm)
    from split_modifiers_fst[OF cm[unfolded c]] assms have "ph c = Inr p" by simp
    then show ?thesis
      unfolding UnitDefinition_init_def by (simp add: cm c ebind_def)
  qed
  have fail: "UnitDefinition_init ph ev nm smb als (CStr s) r b = Inl e"
    if "split_modifiers ev s = Inl e" for e
    unfolding UnitDefinition_init_def by (simp add: that ebind_def)
  have plain: "split_modifiers ev s = Inr (s, Map.empty)" if "CHR '';'' \<notin> set s"
    using that by (simp add: split_modifiers_def)
  have A: "UnitDefinition_init ph ev nm smb als (CStr s) r b =
              (case split_modifiers ev s of
                 Inl e \<Rightarrow> Inl e
               | Inr cm \<Rightarrow> Inl (ValueError cannot_mix)) \<and>
            (CHR '';'' \<notin> set s \<longrightarrow>
               UnitDefinition_init ph ev nm smb als (CStr s) r b = Inl (ValueError cannot_mix))"
    if m: "list_ex is_dim (keys p) \<and> \<not> list_all is_dim (keys p)"
  proof (cases "split_modifiers ev s")
    case (Inl e)
    with fail[OF Inl] plain show ?thesis by auto
  next
    case (Inr cm)
    with run[OF Inr] m show ?thesis by simp
  qed
  have B: "reference d = Some (items p) \<and>
            (is_base d \<longleftrightarrow> keys p \<noteq> [] \<and> list_all is_dim (keys p)) \<and>
            (\<not> is_base d \<longleftrightarrow> \<not> list_ex is_dim (keys p))"
    if d: "UnitDefinition_init ph ev nm smb als (CStr s) r b = Inr d" for d
  proof -
    from unit_init_result[OF d] assms
    have *: "reference d = Some (items p)"
      "if \<not> list_ex is_dim (keys p) then \<not> is_base d else list_all is_dim (keys p) \<and> is_base d"
      by auto
    have "is_base d \<longleftrightarrow> keys p \<noteq> [] \<and> list_all is_dim (keys p)"
      using *(2) list_ex_all_nonempty[of is_dim "keys p"] by (auto split: if_splits)
    moreover have "\<not> is_base d \<longleftrightarrow> \<not> list_ex is_dim (keys p)"
      using *(2) by (auto split: if_splits)
    ultimately show ?thesis using *(1) by blast
  qed
  have C: "\<exists>d. UnitDefinition_init ph ev nm smb als (CStr s) r b = Inr d"
    if "\<not> list_ex is_dim (keys p) \<or> list_all is_dim (keys p)" "split_modifiers ev s = Inr cm" for cm
    using run[OF that(2)] that(1) by auto
  from A B C show ?thesis by blast
qed

text \<open>
  Claim C1 as written asks for \<open>is_base\<close> to be true on an empty reference.  The value
  \<open>12\<close> parses to the scale 12 with no unit, and the unit built from it is not a base
  unit: \<open>not any(...)\<close> over no key is true, and that test comes first.
\<close>

theorem unit_definition_empty_reference_counterexample:
  "UnitDefinition_init ph_sample ev_sample ''dozen'' None [] (CStr ''12'') None False =
     Inr (UnitDefinition ''dozen'' None [] (Some (ScaleConverter 12)) (Some []) False) \<and>
   reference (UnitDefinition ''dozen'' None [] (Some (ScaleConverter 12)) (Some []) False) = Some [] \<and>
   \<not> is_base (UnitDefinition ''dozen'' None [] (Some (ScaleConverter 12)) (Some []) False)"
  by (simp add: UnitDefinition_init_def split_modifiers_def choose_converter_def ph_sample_def ebind_def keys_def)

theorem unit_definition_is_base_witness:
  "UnitDefinition_init ph_sample ev_sample ''knot'' None [] (CStr ''[length] / [time]'') None False =
     Inr (UnitDefinition ''knot'' None [] (Some (ScaleConverter 1))
            (Some [(''[length]'', 1), (''[time]'', -1)]) True) \<and>
   is_base (UnitDefinition ''knot'' None [] (Some (ScaleConverter 1))
            (Some [(''[length]'', 1), (''[time]'', -1)]) True) \<and>
   UnitDefinition_init ph_sample ev_sample ''pace'' None [] (CStr ''[length] / second; offset: 0'')
     None False = Inl (ValueError cannot_mix) \<and>
   UnitDefinition_init ph_sample ev_sample ''pace'' None [] (CStr ''[length] / second'')
     None False = Inl (ValueError cannot_mix)"
proof -
  let ?p = "\<lparr>scale = 1, items = [(''[length]'', 1), (''[time]'', -1)]\<rparr>"
  let ?q = "\<lparr>scale = 1, items = [(''[length]'', 1), (''second'', -1)]\<rparr>"
  let ?d = "UnitDefinition ''knot'' None [] (Some (ScaleConverter 1))
            (Some [(''[length]'', 1), (''[time]'', -1)]) True"
  have h: "ph_sample (takeWhile (\<lambda>x. x \<noteq> CHR '';'') ''[length] / [time]'') = Inr ?p"
    by (simp add: ph_sample_def)
  have e: "UnitDefinition_init ph_sample ev_sample ''knot'' None [] (CStr ''[length] / [time]'') None False = Inr ?d"
    by (simp add: UnitDefinition_init_def split_modifiers_def choose_converter_def ph_sample_def ebind_def keys_def is_dim_def)
  have k: "keys ?p \<noteq> [] \<and> list_all is_dim (keys ?p)" by (simp add: keys_def is_dim_def)
  from unit_definition_is_base[where ph=ph_sample and s="''[length] / [time]''" and p="?p"
      and ev=ev_sample and nm="''knot''" and smb=None and als="[]" and r=None and b=False] h e k
  have 1: "is_base ?d" by blast
  have h2: "ph_sample (takeWhile (\<lambda>x. x \<noteq> CHR '';'') ''[length] / second; offset: 0'') = Inr ?q"
    by (simp add: ph_sample_def)
  have m2: "list_ex is_dim (keys ?q) \<and> \<not> list_all is_dim (keys ?q)"
    by (simp add: keys_def is_dim_def)
  have s2: "split_modifiers ev_sample ''[length] / second; offset: 0'' =
              Inr (''[length] / second'', [''offset'' \<mapsto> 0])"
    by (simp add: split_modifiers_def ev_sample_def ebind_def strip_def lstrip_def rstrip_def
          is_space_def)
  from unit_definition_is_base[where ph=ph_sample and s="''[length] / second; offset: 0''"
      and p="?q" and ev=ev_sample and nm="''pace''" and smb=None and als="[]" and r=None
      and b=False] h2 m2
  have 2: "UnitDefinition_init ph_sample ev_sample ''pace'' None []
             (CStr ''[length] / second; offset: 0'') None False = Inl (ValueError cannot_mix)"
    by (simp add: s2)
  have h3: "ph_sample (takeWhile (\<lambda>x. x \<noteq> CHR '';'') ''[length] / second'') = Inr ?q"
    by (simp add: ph_sample_def)
  have n3: "CHR '';'' \<notin> set ''[length] / second''" by simp
  from unit_definition_is_base[where ph=ph_sample and s="''[length] / second''"
      and p="?q" and ev=ev_sample and nm="''pace''" and smb=None and als="[]" and r=None
      and b=False] h3 m2 n3
  have 3: "UnitDefinition_init ph_sample ev_sample ''pace'' None []
             (CStr ''[length] / second'') None False = Inl (ValueError cannot_mix)"
    by blast
  from e 1 2 3 show ?thesis by blast
qed

section \<open>Parsing a definition line\<close>

lemma dimension_init_result:
  assumes "DimensionDefinition_init ph nm smb als (CStr v) r b = Inr d"
  shows "is_DimensionDefinition d \<and> d_name d = nm \<and> d_symbol d = smb \<and> d_aliases d = als"
proof -
  from assms obtain p where p: "ph v = Inr p"
    unfolding DimensionDefinition_init_def by (cases "ph v") (auto simp: ebind_def)
  from assms show ?thesis
    unfolding DimensionDefinition_init_def by (auto simp: p ebind_def split: if_splits)
qed

lemma strip_chars_Nil: "strip_chars cs [] = []"
  by (simp add: strip_chars_def rstrip_chars_def)

lemma prefix_init_result:
  assumes "PrefixDefinition_init ev nm smb als cv = Inr d"
  shows "is_PrefixDefinition d \<and> d_name d = nm \<and>
         d_symbol d = map_option (strip_chars ''-'') smb \<and>
         d_aliases d = map (strip_chars ''-'') als"
  using assms unfolding PrefixDefinition_init_def
  by (cases cv; cases smb) (auto simp: ebind_def strip_chars_Nil split: sum.splits if_splits)

lemma from_string_no_eq:
  "CHR ''='' \<notin> set line \<Longrightarrow> from_string ph ev line = Inl (ValueError ''unpack'')"
  by (simp add: from_string_def)

lemma from_string_eq:
  assumes "CHR ''='' \<notin> set n"
  shows "from_string ph ev (n @ CHR ''='' # rest) =
     (if startswith ''@alias '' (strip n)
      then Inr (AliasDefinition_init (lstrip (drop (length ''@alias '') (strip n)))
                  (map strip (split CHR ''='' rest)))
      else if startswith ''['' (strip n)
      then DimensionDefinition_init ph (strip n)
             (fst (symbol_and_aliases (tl (map strip (split CHR ''='' rest)))))
             (snd (symbol_and_aliases (tl (map strip (split CHR ''='' rest)))))
             (CStr (hd (map strip (split CHR ''='' rest)))) None False
      else if endswith ''-'' (strip n)
      then PrefixDefinition_init ev (rstrip_chars ''-'' (strip n))
             (fst (symbol_and_aliases (tl (map strip (split CHR ''='' rest)))))
             (snd (symbol_and_aliases (tl (map strip (split CHR ''='' rest)))))
             (CStr (hd (map strip (split CHR ''='' rest))))
      else UnitDefinition_init ph ev (strip n)
             (fst (symbol_and_aliases (tl (map strip (split CHR ''='' rest)))))
             (snd (symbol_and_aliases (tl (map strip (split CHR ''='' rest)))))
             (CStr (hd (map strip (split CHR ''='' rest)))) None False)"
proof -
  obtain v toks where r: "map strip (split CHR ''='' rest) = v # toks"
    using split_not_Nil[of "CHR ''=''" rest] by (cases "map strip (split CHR ''='' rest)") auto
  show ?thesis
    by (simp add: from_string_def split_max_first[OF assms] r Let_def
          split: prod.splits del: split.simps split_max.simps)
qed

text \<open>
  Claim C2.  A line without \<open>=\<close> cannot be unpacked.  A line \<open>n = rest\<close>, where
  \<open>n\<close> has no \<open>=\<close>, is cut at that first \<open>=\<close>; the remainder is cut at every
  \<open>=\<close>, giving one token more than it has \<open>=\<close> signs, each stripped.  With the
  stripped name \<open>nm\<close>: a name that starts with \<open>@alias \<close> gives the alias
  definition of the rest of the name, with all the tokens as aliases; else a name that
  starts with \<open>[\<close> gives what \<open>DimensionDefinition\<close> builds, a dimension definition
  of that name; else a name that ends with \<open>-\<close> gives what \<open>PrefixDefinition\<close>
  builds, a prefix definition whose name is \<open>nm\<close> without its trailing \<open>-\<close> signs;
  else the line gives what \<open>UnitDefinition\<close> builds, a unit definition of that name.
\<close>

theorem from_string_dispatch:
  "(CHR ''='' \<notin> set line \<longrightarrow> from_string ph ev line = Inl (ValueError ''unpack'')) \<and>
   (CHR ''='' \<notin> set n \<longrightarrow>
     (let nm = strip n;
          result = map strip (split CHR ''='' rest);
          smb = fst (symbol_and_aliases (tl result));
          als = snd (symbol_and_aliases (tl result));
          res = from_string ph ev (n @ CHR ''='' # rest)
      in length result = Suc (count_list rest CHR ''='') \<and>
         (if startswith ''@alias '' nm
          then res = Inr (AliasDefinition (lstrip (drop 7 nm)) None result None)
          else if startswith ''['' nm
          then res = DimensionDefinition_init ph nm smb als (CStr (hd result)) None False \<and>
               (\<forall>d. res = Inr d \<longrightarrow> is_DimensionDefinition d \<and> d_name d = nm)
          else if endswith ''-'' nm
          then res = PrefixDefinition_init ev (rstrip_chars ''-'' nm) smb als (CStr (hd result)) \<and>
               (\<forall>d. res = Inr d \<longrightarrow>
                  is_PrefixDefinition d \<and> d_name d = rstrip_chars ''-'' nm \<and>
                  \<not> endswith ''-'' (d_name d) \<and>
                  nm = d_name d @ replicate (length nm - length (d_name d)) CHR ''-'')
          else res = UnitDefinition_init ph ev nm smb als (CStr (hd result)) None False \<and>
               (\<forall>d. res = Inr d \<longrightarrow> is_UnitDefinition d \<and> d_name d = nm))))"
proof (intro conjI impI)
  assume "CHR ''='' \<notin> set line"
  then show "from_string ph ev line = Inl (ValueError ''unpack'')" by (rule from_string_no_eq)
next
  assume n: "CHR ''='' \<notin> set n"
  define nm where "nm = strip n"
  define result where "result = map strip (split CHR ''='' rest)"
  define smb where "smb = fst (symbol_and_aliases (tl result))"
  define als where "als = snd (symbol_and_aliases (tl result))"
  define res where "res = from_string ph ev (n @ CHR ''='' # rest)"
  note defs = nm_def result_def smb_def als_def res_def
  have len: "length result = Suc (count_list rest CHR ''='')"
    by (simp add: result_def length_split)
  have eq: "res =
     (if startswith ''@alias '' nm then Inr (AliasDefinition_init (lstrip (drop 7 nm)) result)
      else if startswith ''['' nm
      then DimensionDefinition_init ph nm smb als (CStr (hd result)) None False
      else if endswith ''-'' nm
      then PrefixDefinition_init ev (rstrip_chars ''-'' nm) smb als (CStr (hd result))
      else UnitDefinition_init ph ev nm smb als (CStr (hd result)) None False)"
  proof -
    have seven: "length ''@alias '' = 7" by simp
    show ?thesis
      unfolding defs by (rule from_string_eq[OF n, of ph ev rest, unfolded seven])
  qed
  have A: "startswith ''@alias '' nm \<Longrightarrow> res = Inr (AliasDefinition (lstrip (drop 7 nm)) None result None)"
    using eq by (simp only: if_True AliasDefinition_init_def)
  have D: "res = DimensionDefinition_init ph nm smb als (CStr (hd result)) None False \<and>
               (\<forall>d. res = Inr d \<longrightarrow> is_DimensionDefinition d \<and> d_name d = nm)"
    if "\<not> startswith ''@alias '' nm" "startswith ''['' nm"
  proof -
    have r: "res = DimensionDefinition_init ph nm smb als (CStr (hd result)) None False"
      using eq that by (simp only: if_True if_False)
    show ?thesis
      using dimension_init_result[of ph nm smb als "hd result" None False] by (simp only: r) blast
  qed
  have P: "res = PrefixDefinition_init ev (rstrip_chars ''-'' nm) smb als (CStr (hd result)) \<and>
               (\<forall>d. res = Inr d \<longrightarrow>
                  is_PrefixDefinition d \<and> d_name d = rstrip_chars ''-'' nm \<and>
                  \<not> endswith ''-'' (d_name d) \<and>
                  nm = d_name d @ replicate (length nm - length (d_name d)) CHR ''-'')"
    if "\<not> startswith ''@alias '' nm" "\<not> startswith ''['' nm" "endswith ''-'' nm"
  proof -
    have r: "res = PrefixDefinition_init ev (rstrip_chars ''-'' nm) smb als (CStr (hd result))"
      using eq that by (simp only: if_True if_False)
    have "is_PrefixDefinition d \<and> d_name d = rstrip_chars ''-'' nm \<and>
                  \<not> endswith ''-'' (d_name d) \<and>
                  nm = d_name d @ replicate (length nm - length (d_name d)) CHR ''-''"
      if d: "res = Inr d" for d
    proof -
      from d r have "PrefixDefinition_init ev (rstrip_chars ''-'' nm) smb als (CStr (hd result)) = Inr d"
        by simp
      from prefix_init_result[OF this]
      have k: "is_PrefixDefinition d" and nmd: "d_name d = rstrip_chars ''-'' nm" by blast+
      show ?thesis
        unfolding nmd using k rstrip_chars_no_trailing[of "CHR ''-''" nm]
          rstrip_chars_decomp[of nm "CHR ''-''"] by blast
    qed
    with r show ?thesis by blast
  qed
  have U: "res = UnitDefinition_init ph ev nm smb als (CStr (hd result)) None False \<and>
               (\<forall>d. res = Inr d \<longrightarrow> is_UnitDefinition d \<and> d_name d = nm)"
    if "\<not> startswith ''@alias '' nm" "\<not> startswith ''['' nm" "\<not> endswith ''-'' nm"
  proof -
    have r: "res = UnitDefinition_init ph ev nm smb als (CStr (hd result)) None False"
      using eq that by (simp only: if_True if_False)
    show ?thesis
      using unit_init_result[of ph ev nm smb als "hd result" None False] by (simp only: r) blast
  qed
  have "length result = Suc (count_list rest CHR ''='') \<and>
         (if startswith ''@alias '' nm
          then res = Inr (AliasDefinition (lstrip (drop 7 nm)) None result None)
          else if startswith ''['' nm
          then res = DimensionDefinition_init ph nm smb als (CStr (hd result)) None False \<and>
               (\<forall>d. res = Inr d \<longrightarrow> is_DimensionDefinition d \<and> d_name d = nm)
          else if endswith ''-'' nm
          then res = PrefixDefinition_init ev (rstrip_chars ''-'' nm) smb als (CStr (hd result)) \<and>
               (\<forall>d. res = Inr d \<longrightarrow>
                  is_PrefixDefinition d \<and> d_name d = rstrip_chars ''-'' nm \<and>
                  \<not> endswith ''-'' (d_name d) \<and>
                  nm = d_name d @ replicate (length nm - length (d_name d)) CHR ''-'')
          else res = UnitDefinition_init ph ev nm smb als (CStr (hd result)) None False \<and>
               (\<forall>d. res = Inr d \<longrightarrow> is_UnitDefinition d \<and> d_name d = nm))"
  proof (cases "startswith ''@alias '' nm")
    case True
    show ?thesis unfolding if_P[OF True] using len A[OF True] by (rule conjI)
  next
    case na: False
    show ?thesis
    proof (cases "startswith ''['' nm")
      case True
      show ?thesis unfolding if_not_P[OF na] if_P[OF True] using len D[OF na True] by (rule conjI)
    next
      case nd: False
      show ?thesis
      proof (cases "endswith ''-'' nm")
        case True
        show ?thesis unfolding if_not_P[OF na] if_not_P[OF nd] if_P[OF True]
          using len P[OF na nd True] by (rule conjI)
      next
        case np: False
        show ?thesis unfolding if_not_P[OF na] if_not_P[OF nd] if_not_P[OF np]
          using len U[OF na nd np] by (rule conjI)
      qed
    qed
  qed
  then show "let nm = strip n;
          result = map strip (split CHR ''='' rest);
          smb = fst (symbol_and_aliases (tl result));
          als = snd (symbol_and_aliases (tl result));
          res = from_string ph ev (n @ CHR ''='' # rest)
      in length result = Suc (count_list rest CHR ''='') \<and>
         (if startswith ''@alias '' nm
          then res = Inr (AliasDefinition (lstrip (drop 7 nm)) None result None)
          else if startswith ''['' nm
          then res = DimensionDefinition_init ph nm smb als (CStr (hd result)) None False \<and>
               (\<forall>d. res = Inr d \<longrightarrow> is_DimensionDefinition d \<and> d_name d = nm)
          else if endswith ''-'' nm
          then res = PrefixDefinition_init ev (rstrip_chars ''-'' nm) smb als (CStr (hd result)) \<and>
               (\<forall>d. res = Inr d \<longrightarrow>
                  is_PrefixDefinition d \<and> d_name d = rstrip_chars ''-'' nm \<and>
                  \<not> endswith ''-'' (d_name d) \<and>
                  nm = d_name d @ replicate (length nm - length (d_name d)) CHR ''-'')
          else res = UnitDefinition_init ph ev nm smb als (CStr (hd result)) None False \<and>
               (\<forall>d. res = Inr d \<longrightarrow> is_UnitDefinition d \<and> d_name d = nm))"
    unfolding defs Let_def .
qed

lemmas eval_defs = strip_def lstrip_def rstrip_def is_space_def startswith_def endswith_def
  rstrip_chars_def strip_chars_def symbol_and_aliases_def ebind_def keys_def is_dim_def
  ph_sample_def ev_sample_def

theorem from_string_dispatch_witness:
  "from_string ph_sample ev_sample ''kelvin'' = Inl (ValueError ''unpack'') \<and>
   from_string ph_sample ev_sample ''@alias meter = metre = m'' =
     Inr (AliasDefinition ''meter'' None [''metre'', ''m''] None) \<and>
   from_string ph_sample ev_sample ''[speed] = [length] / [time]'' =
     Inr (DimensionDefinition ''[speed]'' None [] None (Some [(''[length]'', 1), (''[time]'', -1)]) False) \<and>
   from_string ph_sample ev_sample ''kilo-- = 1000 = k-'' =
     Inr (PrefixDefinition ''kilo'' (Some ''k'') [] (Some (ScaleConverter 1000))) \<and>
   from_string ph_sample ev_sample ''speed = meter / second'' =
     Inr (UnitDefinition ''speed'' None [] (Some (ScaleConverter 1))
            (Some [(''meter'', 1), (''second'', -1)]) False)"
proof -
  have 0: "from_string ph_sample ev_sample ''kelvin'' = Inl (ValueError ''unpack'')"
    using from_string_dispatch[where line="''kelvin''" and ph=ph_sample and ev=ev_sample] by simp
  have 1: "from_string ph_sample ev_sample (''@alias meter '' @ CHR ''='' # '' metre = m'') =
     Inr (AliasDefinition ''meter'' None [''metre'', ''m''] None)"
    using from_string_dispatch[where n="''@alias meter ''" and rest="'' metre = m''"
        and ph=ph_sample and ev=ev_sample]
    by (simp add: Let_def eval_defs)
  have 2: "from_string ph_sample ev_sample (''[speed] '' @ CHR ''='' # '' [length] / [time]'') =
     Inr (DimensionDefinition ''[speed]'' None [] None (Some [(''[length]'', 1), (''[time]'', -1)]) False)"
    using from_string_dispatch[where n="''[speed] ''" and rest="'' [length] / [time]''"
        and ph=ph_sample and ev=ev_sample]
    by (simp add: Let_def eval_defs DimensionDefinition_init_def)
  have 3: "from_string ph_sample ev_sample (''kilo-- '' @ CHR ''='' # '' 1000 = k-'') =
     Inr (PrefixDefinition ''kilo'' (Some ''k'') [] (Some (ScaleConverter 1000)))"
    using from_string_dispatch[where n="''kilo-- ''" and rest="'' 1000 = k-''"
        and ph=ph_sample and ev=ev_sample]
    by (simp add: Let_def eval_defs PrefixDefinition_init_def)
  have 4: "from_string ph_sample ev_sample (''speed '' @ CHR ''='' # '' meter / second'') =
     Inr (UnitDefinition ''speed'' None [] (Some (ScaleConverter 1))
            (Some [(''meter'', 1), (''second'', -1)]) False)"
    using from_string_dispatch[where n="''speed ''" and rest="'' meter / second''"
        and ph=ph_sample and ev=ev_sample]
    by (simp add: Let_def eval_defs UnitDefinition_init_def split_modifiers_def choose_converter_def)
  from 0 1 2 3 4 show ?thesis by simp
qed

lemma symbol_and_aliases_eq:
  "symbol_and_aliases toks =
     (case filter (\<lambda>x. x \<noteq> []) toks of
        [] \<Rightarrow> (None, [])
      | t # ts \<Rightarrow> (if t = ''_'' then None else Some t, filter (\<lambda>x. x \<noteq> ''_'') ts))"
  by (simp add: symbol_and_aliases_def Let_def split: list.splits)

text \<open>
  Claim C4, as the code has it.  For a line that is not an alias line and that parses
  to \<open>d\<close>, take the tokens after the value and leave out the empty ones.  With none
  left, \<open>d\<close> has no symbol and no alias.  Otherwise the first one is the symbol,
  \<open>None\<close> when it is \<open>_\<close>, and the others, without those equal to \<open>_\<close>, are the
  aliases in their order; a unit or a dimension stores them as they are and a prefix
  stores them without leading and trailing \<open>-\<close>.
\<close>

theorem from_string_symbol_and_aliases:
  assumes "CHR ''='' \<notin> set n" and "\<not> startswith ''@alias '' (strip n)"
    and "from_string ph ev (n @ CHR ''='' # rest) = Inr d"
  shows "let stored = (if is_PrefixDefinition d then strip_chars ''-'' else id)
         in (case filter (\<lambda>t. t \<noteq> []) (tl (map strip (split CHR ''='' rest))) of
               [] \<Rightarrow> d_symbol d = None \<and> d_aliases d = []
             | t # ts \<Rightarrow>
                 d_symbol d = (if t = ''_'' then None else Some (stored t)) \<and>
                 d_aliases d = map stored (filter (\<lambda>x. x \<noteq> ''_'') ts))"
proof -
  define result where "result = map strip (split CHR ''='' rest)"
  define smb where "smb = fst (symbol_and_aliases (tl result))"
  define als where "als = snd (symbol_and_aliases (tl result))"
  define nm where "nm = strip n"
  have eq: "(if startswith ''['' nm
      then DimensionDefinition_init ph nm smb als (CStr (hd result)) None False
      else if endswith ''-'' nm
      then PrefixDefinition_init ev (rstrip_chars ''-'' nm) smb als (CStr (hd result))
      else UnitDefinition_init ph ev nm smb als (CStr (hd result)) None False) = Inr d"
    using from_string_eq[OF assms(1), of ph ev rest] assms(2,3)
    unfolding result_def smb_def als_def nm_def by (simp only: if_False)
  have stored: "d_symbol d = map_option (if is_PrefixDefinition d then strip_chars ''-'' else id) smb \<and>
                d_aliases d = map (if is_PrefixDefinition d then strip_chars ''-'' else id) als"
  proof (cases "startswith ''['' nm")
    case True
    with eq have "DimensionDefinition_init ph nm smb als (CStr (hd result)) None False = Inr d"
      by (simp only: if_True)
    from dimension_init_result[OF this] show ?thesis
      by (cases d) (simp_all add: option.map_id)
  next
    case nd: False
    show ?thesis
    proof (cases "endswith ''-'' nm")
      case True
      with eq nd have "PrefixDefinition_init ev (rstrip_chars ''-'' nm) smb als (CStr (hd result)) = Inr d"
        by (simp only: if_True if_False)
      from prefix_init_result[OF this] show ?thesis by simp
    next
      case False
      with eq nd have "UnitDefinition_init ph ev nm smb als (CStr (hd result)) None False = Inr d"
        by (simp only: if_False)
      from unit_init_result[OF this] show ?thesis
        by (cases d) (auto simp add: option.map_id)
    qed
  qed
  show ?thesis
    using stored unfolding smb_def als_def result_def Let_def symbol_and_aliases_eq
    by (simp split: list.splits)
qed

text \<open>
  Claim C4 as written makes the first token after the value the symbol and keeps every
  later token that is neither \<open>_\<close> nor empty as an alias.  On the line
  \<open>speed = meter / second = = b\<close> the first token after the value is empty and the
  second is \<open>b\<close>; the empty token is dropped before the symbol is chosen, so
  \<open>b\<close> is the symbol and there is no alias.
\<close>

theorem from_string_empty_symbol_slot_counterexample:
  "map strip (split CHR ''='' '' meter / second = = b'') = [''meter / second'', [], ''b''] \<and>
   from_string ph_sample ev_sample ''speed = meter / second = = b'' =
     Inr (UnitDefinition ''speed'' (Some ''b'') [] (Some (ScaleConverter 1))
            (Some [(''meter'', 1), (''second'', -1)]) False)"
  by (simp add: from_string_def eval_defs UnitDefinition_init_def split_modifiers_def
        choose_converter_def)

theorem from_string_symbol_and_aliases_witness:
  "from_string ph_sample ev_sample ''kilo- = 1000 = = k- = _ = kk-'' =
     Inr (PrefixDefinition ''kilo'' (Some ''k'') [''kk''] (Some (ScaleConverter 1000))) \<and>
   d_symbol (PrefixDefinition ''kilo'' (Some ''k'') [''kk''] (Some (ScaleConverter 1000))) = Some ''k'' \<and>
   d_aliases (PrefixDefinition ''kilo'' (Some ''k'') [''kk''] (Some (ScaleConverter 1000))) = [''kk'']"
proof -
  let ?d = "PrefixDefinition ''kilo'' (Some ''k'') [''kk''] (Some (ScaleConverter 1000))"
  have h1: "CHR ''='' \<notin> set ''kilo- ''" by simp
  have h2: "\<not> startswith ''@alias '' (strip ''kilo- '')" by (simp add: eval_defs)
  have h3: "from_string ph_sample ev_sample (''kilo- '' @ CHR ''='' # '' 1000 = = k- = _ = kk-'') = Inr ?d"
    by (simp add: from_string_def eval_defs PrefixDefinition_init_def)
  from from_string_symbol_and_aliases[OF h1 h2 h3]
  have "d_symbol ?d = Some ''k'' \<and> d_aliases ?d = [''kk'']"
    by (simp add: Let_def eval_defs)
  with h3 show ?thesis by simp
qed

section \<open>The converter of a unit\<close>

lemma only_scale_is_multiplicative:
  "converter_is_multiplicative cv \<longleftrightarrow> (\<exists>s. cv = ScaleConverter s)"
  by (cases cv) auto

text \<open>
  Claim C3, as the code has it.  For a value whose expression \<open>c\<close> parses to \<open>p\<close>
  with a reference that does not mix dimensions and units: followed by
  \<open>; offset: v\<close> where \<open>v\<close> evaluates to \<open>off\<close>, the converter of the unit is
  \<open>OffsetConverter (scale p) off\<close> when \<open>off\<close> is not zero and
  \<open>ScaleConverter (scale p)\<close> when it is zero, the unit is multiplicative exactly when
  \<open>off\<close> is zero, and in both cases the converter takes \<open>x\<close> to
  \<open>x * scale + off\<close> and back by \<open>(x - off) / scale\<close>, which raises when the scale
  is zero; with no modifier the
  converter is \<open>ScaleConverter (scale p)\<close> and the unit is multiplicative; the scale
  converters are the only multiplicative ones.
\<close>

theorem unit_definition_converter:
  assumes "CHR '';'' \<notin> set c" and "ph c = Inr p"
    and "\<not> list_ex is_dim (keys p) \<or> list_all is_dim (keys p)"
  shows "(CHR '';'' \<notin> set (k @ v) \<and> CHR '':'' \<notin> set (k @ v) \<and> strip k = ''offset'' \<and> ev v = Inr off \<longrightarrow>
           (\<exists>d cv. UnitDefinition_init ph ev nm smb als (CStr (c @ CHR '';'' # k @ CHR '':'' # v)) r b = Inr d \<and>
              d_converter d = Some cv \<and>
              cv = (if off \<noteq> 0 then OffsetConverter (scale p) off else ScaleConverter (scale p)) \<and>
              is_multiplicative d = Inr (off = 0) \<and>
              (\<forall>x. to_reference cv x = x * scale p + off) \<and>
              (\<forall>x. from_reference cv x =
                     (if scale p = 0 then Inl ZeroDivisionError else Inr ((x - off) / scale p))))) \<and>
         (\<exists>d. UnitDefinition_init ph ev nm smb als (CStr c) r b = Inr d \<and>
              d_converter d = Some (ScaleConverter (scale p)) \<and>
              is_multiplicative d = Inr True) \<and>
         (\<forall>cv. converter_is_multiplicative cv \<longleftrightarrow> (\<exists>s. cv = ScaleConverter s))"
proof (intro conjI impI)
  assume a: "CHR '';'' \<notin> set (k @ v) \<and> CHR '':'' \<notin> set (k @ v) \<and> strip k = ''offset'' \<and> ev v = Inr off"
  then have e: "UnitDefinition_init ph ev nm smb als (CStr (c @ CHR '';'' # k @ CHR '':'' # v)) r b =
     (let conv = (if strip k = ''offset'' \<and> off \<noteq> 0 then OffsetConverter (scale p) off
                  else ScaleConverter (scale p))
      in if \<not> list_ex is_dim (keys p)
         then Inr (UnitDefinition nm smb als (Some conv) (Some (items p)) False)
         else if list_all is_dim (keys p)
         then Inr (UnitDefinition nm smb als (Some conv) (Some (items p)) True)
         else Inl (ValueError cannot_mix))"
    using assms(1,2) by (intro unit_init_modifier) auto
  show "\<exists>d cv. UnitDefinition_init ph ev nm smb als (CStr (c @ CHR '';'' # k @ CHR '':'' # v)) r b = Inr d \<and>
              d_converter d = Some cv \<and>
              cv = (if off \<noteq> 0 then OffsetConverter (scale p) off else ScaleConverter (scale p)) \<and>
              is_multiplicative d = Inr (off = 0) \<and>
              (\<forall>x. to_reference cv x = x * scale p + off) \<and>
              (\<forall>x. from_reference cv x =
                     (if scale p = 0 then Inl ZeroDivisionError else Inr ((x - off) / scale p)))"
    unfolding e using a assms(3)
    by (cases "list_ex is_dim (keys p)") (auto simp: is_multiplicative_def Let_def)
next
  have e: "UnitDefinition_init ph ev nm smb als (CStr c) r b =
     (if \<not> list_ex is_dim (keys p)
      then Inr (UnitDefinition nm smb als (Some (ScaleConverter (scale p))) (Some (items p)) False)
      else if list_all is_dim (keys p)
      then Inr (UnitDefinition nm smb als (Some (ScaleConverter (scale p))) (Some (items p)) True)
      else Inl (ValueError cannot_mix))"
    using assms(1,2) by (rule unit_init_plain)
  show "\<exists>d. UnitDefinition_init ph ev nm smb als (CStr c) r b = Inr d \<and>
              d_converter d = Some (ScaleConverter (scale p)) \<and>
              is_multiplicative d = Inr True"
    unfolding e using assms(3)
    by (cases "list_ex is_dim (keys p)") (auto simp: is_multiplicative_def)
next
  show "\<forall>cv. converter_is_multiplicative cv \<longleftrightarrow> (\<exists>s. cv = ScaleConverter s)"
    by (simp add: only_scale_is_multiplicative)
qed

text \<open>
  Claim C3 as written gives every value with an offset modifier an \<open>OffsetConverter\<close>
  and a false \<open>is_multiplicative\<close>.  With \<open>offset: 0\<close> the test
  \<open>modifiers.get('offset', 0.) != 0.\<close> fails: the converter is a
  \<open>ScaleConverter\<close> and the unit is multiplicative.
\<close>

theorem unit_definition_zero_offset_counterexample:
  "UnitDefinition_init ph_sample ev_sample ''kelvin'' None [] (CStr ''[temperature]; offset: 0'') None False =
     Inr (UnitDefinition ''kelvin'' None [] (Some (ScaleConverter 1)) (Some [(''[temperature]'', 1)]) True) \<and>
   is_multiplicative (UnitDefinition ''kelvin'' None [] (Some (ScaleConverter 1))
     (Some [(''[temperature]'', 1)]) True) = Inr True"
  by (simp add: UnitDefinition_init_def split_modifiers_def choose_converter_def ph_sample_def
      ev_sample_def ebind_def keys_def is_dim_def is_multiplicative_def strip_def lstrip_def rstrip_def
      is_space_def)

theorem unit_definition_converter_witness:
  "UnitDefinition_init ph_sample ev_sample ''degC'' None [] (CStr ''kelvin; offset: 273.15'') None False =
     Inr (UnitDefinition ''degC'' None [] (Some (OffsetConverter 1 273.15)) (Some [(''kelvin'', 1)]) False) \<and>
   is_multiplicative (UnitDefinition ''degC'' None [] (Some (OffsetConverter 1 273.15))
     (Some [(''kelvin'', 1)]) False) = Inr False \<and>
   to_reference (OffsetConverter 1 273.15) 0 = 273.15"
proof -
  let ?p = "\<lparr>scale = 1, items = [(''kelvin'', 1)]\<rparr>"
  have h1: "CHR '';'' \<notin> set ''kelvin''" by simp
  have h2: "ph_sample ''kelvin'' = Inr ?p" by (simp add: ph_sample_def)
  have h3: "\<not> list_ex is_dim (keys ?p) \<or> list_all is_dim (keys ?p)"
    by (simp add: keys_def is_dim_def)
  have h4: "CHR '';'' \<notin> set ('' offset'' @ '' 273.15'') \<and> CHR '':'' \<notin> set ('' offset'' @ '' 273.15'') \<and>
     strip '' offset'' = ''offset'' \<and> ev_sample '' 273.15'' = Inr 273.15"
    by (simp add: strip_def lstrip_def rstrip_def is_space_def ev_sample_def)
  from unit_definition_converter[where ph=ph_sample and c="''kelvin''" and p="?p" and k="'' offset''"
      and v="'' 273.15''" and ev=ev_sample and off="273.15" and nm="''degC''" and smb=None and als="[]"
      and r=None and b=False, OF h1 h2 h3] h4
  obtain d cv where
    "UnitDefinition_init ph_sample ev_sample ''degC'' None [] (CStr (''kelvin'' @ CHR '';'' # '' offset'' @ CHR '':'' # '' 273.15'')) None False = Inr d"
    "d_converter d = Some cv" "cv = OffsetConverter (scale ?p) 273.15"
    "is_multiplicative d = Inr False" "to_reference cv 0 = 0 * scale ?p + 273.15"
    by auto
  moreover have "UnitDefinition_init ph_sample ev_sample ''degC'' None [] (CStr ''kelvin; offset: 273.15'') None False =
     Inr (UnitDefinition ''degC'' None [] (Some (OffsetConverter 1 273.15)) (Some [(''kelvin'', 1)]) False)"
    by (simp add: UnitDefinition_init_def split_modifiers_def choose_converter_def ph_sample_def
      ev_sample_def ebind_def keys_def is_dim_def strip_def lstrip_def rstrip_def is_space_def)
  ultimately show ?thesis by simp
qed

section \<open>The symbol of a definition\<close>

text \<open>
  Claim C9.  A definition whose stored symbol is \<open>None\<close> or the empty string answers
  its name when asked for its symbol, and \<open>has_symbol\<close> is false; a definition that
  stores a symbol that is not empty answers that symbol, and \<open>has_symbol\<close> is true.
\<close>

theorem symbol_accessor:
  "(d_symbol d = None \<or> d_symbol d = Some [] \<longrightarrow> symbol d = name d \<and> \<not> has_symbol d) \<and>
   (\<forall>s. d_symbol d = Some s \<and> s \<noteq> [] \<longrightarrow> symbol d = s \<and> has_symbol d)"
  by (auto simp: symbol_def has_symbol_def name_def)

theorem symbol_accessor_witness:
  "symbol (UnitDefinition ''meter'' None [] None None True) = ''meter'' \<and>
   \<not> has_symbol (UnitDefinition ''meter'' None [] None None True) \<and>
   symbol (PrefixDefinition ''kilo'' (Some []) [] None) = ''kilo'' \<and>
   \<not> has_symbol (PrefixDefinition ''kilo'' (Some []) [] None) \<and>
   symbol (UnitDefinition ''meter'' (Some ''m'') [] None None True) = ''m'' \<and>
   has_symbol (UnitDefinition ''meter'' (Some ''m'') [] None None True)"
  using symbol_accessor [of "UnitDefinition ''meter'' None [] None None True"]
    symbol_accessor [of "PrefixDefinition ''kilo'' (Some []) [] None"]
    symbol_accessor [of "UnitDefinition ''meter'' (Some ''m'') [] None None True"]
  by (simp add: name_def)

section \<open>Wrapped functions\<close>

lemma ebind_Inr_simp [simp]: "ebind (Inr x) f = f x"
  by (simp add: ebind_def)

lemma ebind_Inl_simp [simp]: "ebind (Inl e) f = Inl e"
  by (simp add: ebind_def)

lemma item_Inr: "item xs i = Inr x \<Longrightarrow> i < length xs \<and> xs ! i = x"
  by (auto simp: item_def split: if_splits)

lemma emap_Inr:
  "emap f xs = Inr ys \<Longrightarrow> length ys = length xs \<and> (\<forall>i<length xs. f (xs ! i) = Inr (ys ! i))"
proof (induction xs arbitrary: ys)
  case Nil
  then show ?case by simp
next
  case (Cons x xs)
  from Cons.prems obtain y where y: "f x = Inr y" by (cases "f x") auto
  with Cons.prems obtain ys' where ys': "emap f xs = Inr ys'" by (cases "emap f xs") auto
  with y Cons.prems have ys: "ys = y # ys'" by simp
  from Cons.IH[OF ys'] y show ?case unfolding ys by (auto simp: nth_Cons split: nat.splits)
qed

text \<open>The first pass.\<close>

lemma first_pass_keeps:
  "first_pass w vals ns (nv, vbn) = Inr (nv', vbn') \<Longrightarrow> ndx \<notin> set ns \<Longrightarrow>
     length nv' = length nv \<and> nv' ! ndx = nv ! ndx"
proof (induction ns arbitrary: nv vbn)
  case Nil
  then show ?case by simp
next
  case (Cons n ns)
  from Cons.prems(1) obtain v where v: "item vals n = Inr v"
    by (cases "item vals n") auto
  from Cons.prems(1) v obtain key r where k: "item (args_as_uc w) n = Inr (EKey key, r)"
    by (auto split: sum.splits prod.splits arg_entry.splits)
  from Cons.prems(1) have
    "first_pass w vals ns (nv[n := magnitude_of v], vbn(key \<mapsto> v)) = Inr (nv', vbn')"
    by (simp add: v k)
  from Cons.IH[OF this] Cons.prems(2) show ?case by simp
qed

lemma second_pass_keeps:
  "second_pass env ureg w vals vbn ns nv = Inr nv' \<Longrightarrow> ndx \<notin> set ns \<Longrightarrow>
     length nv' = length nv \<and> nv' ! ndx = nv ! ndx"
proof (induction ns arbitrary: nv)
  case Nil
  then show ?case by simp
next
  case (Cons n ns)
  from Cons.prems(1) obtain v where v: "item vals n = Inr v"
    by (cases "item vals n") auto
  from Cons.prems(1) v obtain u r where k: "item (args_as_uc w) n = Inr (EUnits u, r)"
    by (auto split: sum.splits prod.splits arg_entry.splits)
  from Cons.prems(1) v k obtain dst where d: "replace_units env u vbn = Inr dst"
    by (cases "replace_units env u vbn") auto
  from Cons.prems(1) v k d obtain x where x: "convert ureg (magnitude_of v) (units_of v) dst = Inr x"
    by (cases "convert ureg (magnitude_of v) (units_of v) dst") auto
  from Cons.prems(1) have "second_pass env ureg w vals vbn ns (nv[n := x]) = Inr nv'"
    by (simp add: v k d x)
  from Cons.IH[OF this] Cons.prems(2) show ?case by simp
qed

text \<open>The third pass.\<close>

lemma third_pass_step:
  "third_pass ureg w vals strict (n # ns) nv = Inr nv' \<Longrightarrow>
     \<exists>v. item vals n = Inr v \<and>
       (if is_quantity_of ureg v
        then \<exists>u r x. item (args_as_uc w) n = Inr (EUnits u, r) \<and>
               convert ureg (magnitude_of v) (units_of v) u = Inr x \<and>
               third_pass ureg w vals strict ns (nv[n := x]) = Inr nv'
        else \<not> strict \<and> third_pass ureg w vals strict ns nv = Inr nv')"
proof -
  assume a: "third_pass ureg w vals strict (n # ns) nv = Inr nv'"
  then obtain v where v: "item vals n = Inr v" by (cases "item vals n") auto
  show ?thesis
  proof (cases "is_quantity_of ureg v")
    case True
    from a v True obtain u r where k: "item (args_as_uc w) n = Inr (EUnits u, r)"
      by (auto split: sum.splits prod.splits arg_entry.splits)
    from a v True k obtain x where x: "convert ureg (magnitude_of v) (units_of v) u = Inr x"
      by (cases "convert ureg (magnitude_of v) (units_of v) u") auto
    from a v True k x show ?thesis by simp
  next
    case False
    with a v show ?thesis by (auto split: if_splits)
  qed
qed

lemma third_pass_keeps:
  "third_pass ureg w vals strict ns nv = Inr nv' \<Longrightarrow>
     ndx \<notin> set ns \<or> (ndx < length vals \<and> \<not> is_quantity_of ureg (vals ! ndx)) \<Longrightarrow>
     nv' ! ndx = nv ! ndx"
proof (induction ns arbitrary: nv)
  case Nil
  then show ?case by simp
next
  case (Cons n ns)
  from third_pass_step[OF Cons.prems(1)] obtain v where v: "item vals n = Inr v" and
    s: "if is_quantity_of ureg v
        then \<exists>u r x. item (args_as_uc w) n = Inr (EUnits u, r) \<and>
               convert ureg (magnitude_of v) (units_of v) u = Inr x \<and>
               third_pass ureg w vals strict ns (nv[n := x]) = Inr nv'
        else \<not> strict \<and> third_pass ureg w vals strict ns nv = Inr nv'"
    by blast
  have keep: "ndx \<notin> set ns \<or> (ndx < length vals \<and> \<not> is_quantity_of ureg (vals ! ndx))"
    using Cons.prems(2) by auto
  show ?case
  proof (cases "is_quantity_of ureg v")
    case True
    with s obtain x where t: "third_pass ureg w vals strict ns (nv[n := x]) = Inr nv'" by auto
    from True v Cons.prems(2) have "n \<noteq> ndx" using item_Inr[OF v] by auto
    with Cons.IH[OF t keep] show ?thesis by simp
  next
    case False
    with s have "\<not> strict \<and> third_pass ureg w vals strict ns nv = Inr nv'" by metis
    then have "third_pass ureg w vals strict ns nv = Inr nv'" by (rule conjunct2)
    from Cons.IH[OF this keep] show ?thesis .
  qed
qed

lemma third_pass_strict_fails:
  "ndx \<in> set ns \<Longrightarrow> ndx < length vals \<Longrightarrow> \<not> is_quantity_of ureg (vals ! ndx) \<Longrightarrow>
     \<exists>e. third_pass ureg w vals True ns nv = Inl e"
proof (cases "third_pass ureg w vals True ns nv")
  case (Inl e)
  then show ?thesis by blast
next
  case (Inr nv')
  assume a: "ndx \<in> set ns" "ndx < length vals" "\<not> is_quantity_of ureg (vals ! ndx)"
  have "ndx \<notin> set ns" using Inr a(2,3)
  proof (induction ns arbitrary: nv)
    case Nil
    then show ?case by simp
  next
    case (Cons n ns)
    from third_pass_step[OF Cons.prems(1)] obtain v where v: "item vals n = Inr v" and
      s: "if is_quantity_of ureg v
        then \<exists>u r x. item (args_as_uc w) n = Inr (EUnits u, r) \<and>
               convert ureg (magnitude_of v) (units_of v) u = Inr x \<and>
               third_pass ureg w vals True ns (nv[n := x]) = Inr nv'
        else \<not> True \<and> third_pass ureg w vals True ns nv = Inr nv'"
      by blast
    from s have q: "is_quantity_of ureg v" by (auto split: if_splits)
    with s obtain x where "third_pass ureg w vals True ns (nv[n := x]) = Inr nv'" by auto
    from Cons.IH[OF this Cons.prems(2,3)] have "ndx \<notin> set ns" .
    moreover have "n \<noteq> ndx" using q item_Inr[OF v] Cons.prems(3) by auto
    ultimately show ?case by simp
  qed
  with a(1) show ?thesis by simp
qed

lemma third_pass_converts:
  "third_pass ureg w vals strict ns nv = Inr nv' \<Longrightarrow> distinct ns \<Longrightarrow>
     ndx \<in> set ns \<Longrightarrow> ndx < length nv \<Longrightarrow> is_quantity_of ureg (vals ! ndx) \<Longrightarrow>
     item (args_as_uc w) ndx = Inr (EUnits u, r) \<Longrightarrow>
     convert ureg (magnitude_of (vals ! ndx)) (units_of (vals ! ndx)) u = Inr (nv' ! ndx)"
proof (induction ns arbitrary: nv)
  case Nil
  then show ?case by simp
next
  case (Cons n ns)
  from third_pass_step[OF Cons.prems(1)] obtain v where v: "item vals n = Inr v" and
    s: "if is_quantity_of ureg v
        then \<exists>u r x. item (args_as_uc w) n = Inr (EUnits u, r) \<and>
               convert ureg (magnitude_of v) (units_of v) u = Inr x \<and>
               third_pass ureg w vals strict ns (nv[n := x]) = Inr nv'
        else \<not> strict \<and> third_pass ureg w vals strict ns nv = Inr nv'"
    by blast
  show ?case
  proof (cases "n = ndx")
    case True
    with v item_Inr[OF v] Cons.prems(5) have q: "is_quantity_of ureg v" and vv: "v = vals ! ndx" by auto
    with s True Cons.prems(6) obtain x where
      x: "convert ureg (magnitude_of v) (units_of v) u = Inr x"
      and t: "third_pass ureg w vals strict ns (nv[ndx := x]) = Inr nv'" by auto
    from Cons.prems(2) True have "ndx \<notin> set ns" by simp
    then have "nv' ! ndx = (nv[ndx := x]) ! ndx"
      using third_pass_keeps[OF t, of ndx] by simp
    with Cons.prems(4) x vv show ?thesis by simp
  next
    case False
    with Cons.prems(3) have in_ns: "ndx \<in> set ns" by simp
    from Cons.prems(2) have d: "distinct ns" by simp
    show ?thesis
    proof (cases "is_quantity_of ureg v")
      case True
      with s obtain x where t: "third_pass ureg w vals strict ns (nv[n := x]) = Inr nv'" by auto
      from Cons.IH[OF t d in_ns _ Cons.prems(5,6)] Cons.prems(4) show ?thesis by simp
    next
      case False
      with s have "\<not> strict \<and> third_pass ureg w vals strict ns nv = Inr nv'" by metis
      then have t: "third_pass ureg w vals strict ns nv = Inr nv'" by (rule conjunct2)
      from Cons.IH[OF t d in_ns Cons.prems(4,5,6)] show ?thesis .
    qed
  qed
qed

text \<open>The classification of the declared arguments.\<close>

lemma classify_length: "length (args_as_uc (classify k es w)) = length (args_as_uc w)"
  by (induction k es w rule: classify.induct) (auto split: list.splits)

lemma classify_unit_mem:
  "ndx \<in> set (unit_args_ndx (classify k es w)) \<longleftrightarrow>
     ndx \<in> set (unit_args_ndx w) \<or>
     (k \<le> ndx \<and> ndx < k + length es \<and> (\<exists>u. es ! (ndx - k) = (Some u, False)))"
proof (induction k es w rule: classify.induct)
  case (1 k w)
  then show ?case by auto
next
  case (2 k is_ref rest w)
  have "(Suc k \<le> ndx \<and> ndx < Suc k + length rest \<and> (\<exists>u. rest ! (ndx - Suc k) = (Some u, False)))
     \<longleftrightarrow> (k \<le> ndx \<and> ndx < k + length ((None, is_ref) # rest) \<and>
          (\<exists>u. ((None, is_ref) # rest) ! (ndx - k) = (Some u, False)))"
    by (cases "ndx = k") (auto simp: nth_Cons' Suc_diff_Suc)
  with 2 show ?case by simp
next
  case (3 k arg is_ref rest w)
  let ?w' = "(if is_ref
        then (case arg of
                [(key, val)] \<Rightarrow>
                  if val = 1 \<and> key \<notin> defs_args w
                  then w\<lparr>defs_args := insert key (defs_args w),
                         defs_args_ndx := defs_args_ndx w @ [k],
                         args_as_uc := (args_as_uc w)[k := (EKey key, True)]\<rparr>
                  else w\<lparr>dependent_args_ndx := dependent_args_ndx w @ [k]\<rparr>
              | _ \<Rightarrow> w\<lparr>dependent_args_ndx := dependent_args_ndx w @ [k]\<rparr>)
        else w\<lparr>unit_args_ndx := unit_args_ndx w @ [k]\<rparr>)"
  have u: "set (unit_args_ndx ?w') = (if is_ref then set (unit_args_ndx w) else insert k (set (unit_args_ndx w)))"
    by (auto split: list.splits)
  have "(Suc k \<le> ndx \<and> ndx < Suc k + length rest \<and> (\<exists>u. rest ! (ndx - Suc k) = (Some u, False)))
     \<longleftrightarrow> (ndx \<noteq> k \<and> k \<le> ndx \<and> ndx < k + length ((Some arg, is_ref) # rest) \<and>
          (\<exists>u. ((Some arg, is_ref) # rest) ! (ndx - k) = (Some u, False)))"
    by (cases "ndx = k") (auto simp: nth_Cons' Suc_diff_Suc)
  moreover have "ndx \<in> set (unit_args_ndx (classify k ((Some arg, is_ref) # rest) w)) \<longleftrightarrow>
     ndx \<in> set (unit_args_ndx ?w') \<or>
     (Suc k \<le> ndx \<and> ndx < Suc k + length rest \<and> (\<exists>u. rest ! (ndx - Suc k) = (Some u, False)))"
    using 3 by simp
  ultimately show ?case unfolding u by (cases "ndx = k") auto
qed

lemma classify_unit_distinct:
  "distinct (unit_args_ndx w) \<Longrightarrow> \<forall>i\<in>set (unit_args_ndx w). i < k \<Longrightarrow>
     distinct (unit_args_ndx (classify k es w))"
proof (induction k es w rule: classify.induct)
  case (1 k w)
  then show ?case by simp
next
  case (2 k is_ref rest w)
  then show ?case by (simp add: less_Suc_eq)
next
  case (3 k arg is_ref rest w)
  show ?case
    unfolding classify.simps
    by (rule "3.IH") (use "3.prems" in \<open>auto split: list.splits simp: less_Suc_eq\<close>)
qed

lemma classify_ref_mem:
  "ndx \<in> set (defs_args_ndx (classify k es w)) \<or> ndx \<in> set (dependent_args_ndx (classify k es w)) \<Longrightarrow>
     ndx \<in> set (defs_args_ndx w) \<or> ndx \<in> set (dependent_args_ndx w) \<or>
     (k \<le> ndx \<and> ndx < k + length es \<and> snd (es ! (ndx - k)))"
proof (induction k es w rule: classify.induct)
  case (1 k w)
  then show ?case by auto
next
  case (2 k is_ref rest w)
  from "2.IH"[OF "2.prems"[unfolded classify.simps]] show ?case
    by (cases "ndx = k") (auto simp: nth_Cons' Suc_diff_Suc)
next
  case (3 k arg is_ref rest w)
  from "3.IH"[OF "3.prems"[unfolded classify.simps]] show ?case
    by (cases "ndx = k") (auto simp: nth_Cons' Suc_diff_Suc split: list.splits if_splits)
qed

lemma classify_entry:
  "\<not> (k \<le> ndx \<and> ndx < k + length es \<and> snd (es ! (ndx - k))) \<Longrightarrow>
     args_as_uc (classify k es w) ! ndx = args_as_uc w ! ndx"
proof (induction k es w rule: classify.induct)
  case (1 k w)
  then show ?case by simp
next
  case (2 k is_ref rest w)
  have "\<not> (Suc k \<le> ndx \<and> ndx < Suc k + length rest \<and> snd (rest ! (ndx - Suc k)))"
    using "2.prems" by (cases "ndx = k") (auto simp: nth_Cons' Suc_diff_Suc)
  from "2.IH"[OF this] show ?case by simp
next
  case (3 k arg is_ref rest w)
  have n: "\<not> (Suc k \<le> ndx \<and> ndx < Suc k + length rest \<and> snd (rest ! (ndx - Suc k)))"
    using "3.prems" by (cases "ndx = k") (auto simp: nth_Cons' Suc_diff_Suc)
  have "is_ref \<Longrightarrow> ndx \<noteq> k" using "3.prems" by auto
  then show ?case
    unfolding classify.simps "3.IH"[OF n] by (auto split: list.splits)
qed

lemma parse_wrap_args_plain:
  assumes "parse_wrap_args env args registry = Inr w"
    and "ndx < length args"
    and "to_units_container' env (args ! ndx) registry = Inr (Some u, False)"
  shows "ndx \<in> set (unit_args_ndx w) \<and> distinct (unit_args_ndx w) \<and>
         ndx \<notin> set (defs_args_ndx w) \<and> ndx \<notin> set (dependent_args_ndx w) \<and>
         item (args_as_uc w) ndx = Inr (EUnits u, False)"
proof -
  from assms(1) obtain ucs where
    ucs: "emap (\<lambda>arg. to_units_container' env arg registry) args = Inr ucs"
    unfolding parse_wrap_args_def
    by (cases "emap (\<lambda>arg. to_units_container' env arg registry) args") auto
  let ?w0 = "\<lparr>defs_args = {}, defs_args_ndx = [], dependent_args_ndx = [],
                     unit_args_ndx = [], args_as_uc = map entry_of ucs\<rparr>"
  from assms(1) ucs have w: "w = classify 0 ucs ?w0"
    unfolding parse_wrap_args_def by (auto simp: Let_def split: if_splits)
  from emap_Inr[OF ucs] assms(2,3) have len: "length ucs = length args"
    and e: "ucs ! ndx = (Some u, False)" by auto
  have 1: "ndx \<in> set (unit_args_ndx w)"
    unfolding w classify_unit_mem using e len assms(2) by simp
  have 2: "distinct (unit_args_ndx w)"
    unfolding w by (rule classify_unit_distinct) simp_all
  have 3: "ndx \<notin> set (defs_args_ndx w) \<and> ndx \<notin> set (dependent_args_ndx w)"
    using classify_ref_mem[of ndx 0 ucs ?w0] e unfolding w by auto
  have "args_as_uc w ! ndx = args_as_uc ?w0 ! ndx"
    unfolding w by (rule classify_entry) (simp add: e)
  moreover have "length (args_as_uc w) = length ucs"
    unfolding w classify_length by simp
  ultimately have 4: "item (args_as_uc w) ndx = Inr (EUnits u, False)"
    using e len assms(2) by (simp add: item_def)
  from 1 2 3 4 show ?thesis by blast
qed

text \<open>The order in which a set of indices is visited.\<close>

lemma set_order_set [simp]: "set (set_order env xs) = set xs"
  by (simp add: set_order_def)

lemma set_order_distinct [simp]: "distinct (set_order env xs) = distinct xs"
  by (simp add: set_order_def)

lemma set_order_Nil [simp]: "set_order env [] = []"
  by (simp add: set_order_def)

lemma set_order_single [simp]: "set_order env [x] = [x]"
  by (simp add: set_order_def)

lemma fresh_index: "\<exists>n. n \<notin> set (xs :: nat list)"
  using ex_new_if_finite[OF infinite_UNIV_nat finite_set] by blast

text \<open>The third pass up to the first value that is not a quantity.\<close>

lemma third_pass_strict_first:
  "third_pass ureg w vals False pre nv = Inr nv' \<Longrightarrow>
     ndx < length vals \<Longrightarrow> \<not> is_quantity_of ureg (vals ! ndx) \<Longrightarrow>
     third_pass ureg w vals True (pre @ ndx # post) nv = Inl (ValueError requires_quantity)"
proof (induction pre arbitrary: nv)
  case Nil
  then show ?case by (simp add: item_def)
next
  case (Cons n pre)
  from third_pass_step[OF Cons.prems(1)] obtain v where v: "item vals n = Inr v" and
    s: "if is_quantity_of ureg v
        then \<exists>u r x. item (args_as_uc w) n = Inr (EUnits u, r) \<and>
               convert ureg (magnitude_of v) (units_of v) u = Inr x \<and>
               third_pass ureg w vals False pre (nv[n := x]) = Inr nv'
        else \<not> False \<and> third_pass ureg w vals False pre nv = Inr nv'"
    by blast
  show ?case
  proof (cases "is_quantity_of ureg v")
    case True
    with s obtain u r x where k: "item (args_as_uc w) n = Inr (EUnits u, r)"
      and x: "convert ureg (magnitude_of v) (units_of v) u = Inr x"
      and t: "third_pass ureg w vals False pre (nv[n := x]) = Inr nv'" by auto
    from Cons.IH[OF t Cons.prems(2,3)] show ?thesis by (simp add: v True k x)
  next
    case False
    then show ?thesis by (simp add: v)
  qed
qed

text \<open>The converter at an argument declared with plain units.\<close>

lemma converter_stages:
  assumes "converter' env w ureg vals strict = Inr (nv, vbn)"
  shows "\<exists>nv1 nv2.
           first_pass w vals (set_order env (defs_args_ndx w)) (vals, Map.empty) = Inr (nv1, vbn) \<and>
           second_pass env ureg w vals vbn (set_order env (dependent_args_ndx w)) nv1 = Inr nv2 \<and>
           third_pass ureg w vals strict (set_order env (unit_args_ndx w)) nv2 = Inr nv"
proof -
  from assms obtain nv1 vbn1 where
    1: "first_pass w vals (set_order env (defs_args_ndx w)) (vals, Map.empty) = Inr (nv1, vbn1)"
    unfolding converter'_def
    by (cases "first_pass w vals (set_order env (defs_args_ndx w)) (vals, Map.empty)") auto
  from assms 1 obtain nv2 where
    2: "second_pass env ureg w vals vbn1 (set_order env (dependent_args_ndx w)) nv1 = Inr nv2"
    unfolding converter'_def
    by (cases "second_pass env ureg w vals vbn1 (set_order env (dependent_args_ndx w)) nv1") auto
  from assms 1 2 obtain nv3 where
    3: "third_pass ureg w vals strict (set_order env (unit_args_ndx w)) nv2 = Inr nv3"
    unfolding converter'_def
    by (cases "third_pass ureg w vals strict (set_order env (unit_args_ndx w)) nv2") auto
  from assms 1 2 3 have "nv3 = nv" "vbn1 = vbn" unfolding converter'_def by auto
  with 1 2 3 show ?thesis by blast
qed

lemma converter_strict_fails:
  assumes "ndx \<in> set (unit_args_ndx w)" "ndx < length vals" "\<not> is_quantity_of ureg (vals ! ndx)"
  shows "\<exists>e. converter' env w ureg vals True = Inl e"
proof (cases "converter' env w ureg vals True")
  case (Inl e)
  then show ?thesis by blast
next
  case (Inr r)
  obtain nv vbn where r: "r = (nv, vbn)" by (cases r)
  from converter_stages[OF Inr[unfolded r]] obtain nv2 where
    "third_pass ureg w vals True (set_order env (unit_args_ndx w)) nv2 = Inr nv" by blast
  moreover have "ndx \<in> set (set_order env (unit_args_ndx w))" using assms(1) by simp
  from third_pass_strict_fails[OF this assms(2,3), of w nv2]
  obtain e where "third_pass ureg w vals True (set_order env (unit_args_ndx w)) nv2 = Inl e"
    by blast
  ultimately show ?thesis by simp
qed

lemma converter_strict_value_error:
  assumes "first_pass w vals (set_order env (defs_args_ndx w)) (vals, Map.empty) = Inr (nv1, vbn)"
    and "second_pass env ureg w vals vbn (set_order env (dependent_args_ndx w)) nv1 = Inr nv2"
    and "third_pass ureg w vals False
           (takeWhile (\<lambda>j. j \<noteq> ndx) (set_order env (unit_args_ndx w))) nv2 = Inr nv3"
    and "ndx \<in> set (unit_args_ndx w)" "ndx < length vals" "\<not> is_quantity_of ureg (vals ! ndx)"
  shows "converter' env w ureg vals True = Inl (ValueError requires_quantity)"
proof -
  have "ndx \<in> set (set_order env (unit_args_ndx w))" using assms(4) by simp
  then obtain pre post where o: "set_order env (unit_args_ndx w) = pre @ ndx # post"
    and n: "ndx \<notin> set pre" by (meson split_list_first)
  have "takeWhile (\<lambda>j. j \<noteq> ndx) (set_order env (unit_args_ndx w)) = pre"
    unfolding o using n by (rule takeWhile_sep)
  with assms(3) have "third_pass ureg w vals False pre nv2 = Inr nv3" by simp
  from third_pass_strict_first[OF this assms(5,6), of post]
  have "third_pass ureg w vals True (set_order env (unit_args_ndx w)) nv2 =
          Inl (ValueError requires_quantity)"
    unfolding o .
  then show ?thesis unfolding converter'_def by (simp add: assms(1,2))
qed

lemma converter_passes_through:
  assumes "converter' env w ureg vals strict = Inr (nv, vbn)"
    and "ndx \<notin> set (defs_args_ndx w)" "ndx \<notin> set (dependent_args_ndx w)"
    and "ndx < length vals" "\<not> is_quantity_of ureg (vals ! ndx)"
  shows "nv ! ndx = vals ! ndx"
proof -
  from converter_stages[OF assms(1)] obtain nv1 nv2 where
    1: "first_pass w vals (set_order env (defs_args_ndx w)) (vals, Map.empty) = Inr (nv1, vbn)" and
    2: "second_pass env ureg w vals vbn (set_order env (dependent_args_ndx w)) nv1 = Inr nv2" and
    3: "third_pass ureg w vals strict (set_order env (unit_args_ndx w)) nv2 = Inr nv" by blast
  from first_pass_keeps[OF 1, of ndx] assms(2) have "nv1 ! ndx = vals ! ndx" by simp
  moreover from second_pass_keeps[OF 2, of ndx] assms(3) have "nv2 ! ndx = nv1 ! ndx" by simp
  moreover from third_pass_keeps[OF 3] assms(4,5) have "nv ! ndx = nv2 ! ndx" by blast
  ultimately show ?thesis by simp
qed

lemma converter_converts:
  assumes "converter' env w ureg vals strict = Inr (nv, vbn)"
    and "ndx \<in> set (unit_args_ndx w)" "distinct (unit_args_ndx w)"
    and "item (args_as_uc w) ndx = Inr (EUnits u, r)"
    and "ndx < length vals" "is_quantity_of ureg (vals ! ndx)"
  shows "convert ureg (magnitude_of (vals ! ndx)) (units_of (vals ! ndx)) u = Inr (nv ! ndx)"
proof -
  from converter_stages[OF assms(1)] obtain nv1 nv2 where
    1: "first_pass w vals (set_order env (defs_args_ndx w)) (vals, Map.empty) = Inr (nv1, vbn)" and
    2: "second_pass env ureg w vals vbn (set_order env (dependent_args_ndx w)) nv1 = Inr nv2" and
    3: "third_pass ureg w vals strict (set_order env (unit_args_ndx w)) nv2 = Inr nv" by blast
  obtain a where "a \<notin> set (set_order env (defs_args_ndx w))" using fresh_index by blast
  from first_pass_keeps[OF 1 this] have "length nv1 = length vals" by simp
  moreover obtain b where "b \<notin> set (set_order env (dependent_args_ndx w))"
    using fresh_index by blast
  from second_pass_keeps[OF 2 this] have "length nv2 = length nv1" by simp
  ultimately have l: "ndx < length nv2" using assms(5) by simp
  have d: "distinct (set_order env (unit_args_ndx w))" using assms(3) by simp
  have m: "ndx \<in> set (set_order env (unit_args_ndx w))" using assms(2) by simp
  from third_pass_converts[OF 3 d m l assms(6,4)] show ?thesis .
qed

lemma wraps_Inr:
  assumes "wraps env ureg ret args strict = Inr wd"
  shows "parse_wrap_args env args None = Inr (w_converter wd) \<and> w_ureg wd = ureg \<and>
         w_strict wd = strict \<and>
         (case ret of
            RetOne r \<Rightarrow> \<exists>u. to_units_container' env r (Some (reg_id ureg)) = Inr u \<and> w_ret wd = One u
          | RetMany rs \<Rightarrow> \<exists>us. emap (\<lambda>arg. to_units_container' env arg (Some (reg_id ureg))) rs = Inr us \<and>
                            w_ret wd = Many us)"
proof -
  from assms obtain w where w: "parse_wrap_args env args None = Inr w"
    unfolding wraps_def by (cases "parse_wrap_args env args None") auto
  show ?thesis
  proof (cases ret)
    case (RetOne r)
    with assms w obtain u where "to_units_container' env r (Some (reg_id ureg)) = Inr u"
      unfolding wraps_def by (cases "to_units_container' env r (Some (reg_id ureg))") auto
    with assms w RetOne show ?thesis unfolding wraps_def by auto
  next
    case (RetMany rs)
    with assms w obtain us where
      "emap (\<lambda>arg. to_units_container' env arg (Some (reg_id ureg))) rs = Inr us"
      unfolding wraps_def
      by (cases "emap (\<lambda>arg. to_units_container' env arg (Some (reg_id ureg))) rs") auto
    with assms w RetMany show ?thesis unfolding wraps_def by auto
  qed
qed

lemma wrapper_body_irrelevant:
  assumes "apply_defaults func actual = Inr vals"
    and "converter' env (w_converter wd) (w_ureg wd) vals (w_strict wd) = Inl e"
  shows "wrapper env wd (func\<lparr>body := b\<rparr>) actual = Inl e"
proof -
  have "apply_defaults (func\<lparr>body := b\<rparr>) actual = apply_defaults func actual"
    by (simp add: apply_defaults_def)
  with assms show ?thesis by (simp add: wrapper_def)
qed

lemma wrapper_calls_body:
  assumes "apply_defaults func actual = Inr vals"
    and "converter' env (w_converter wd) (w_ureg wd) vals (w_strict wd) = Inr (nv, vbn)"
  shows "wrapper env wd func actual = ebind (body func nv) (finish env wd vbn)"
  using assms by (simp add: wrapper_def)

text \<open>
  Claim C6, as the code has it.  Take a function wrapped by \<open>wraps\<close>, an argument
  position declared with plain units \<open>u\<close> (not \<open>None\<close> and not a reference written with
  \<open>=\<close>), and a call whose arguments, after the defaults, are \<open>vals\<close>.  When the value
  at that position is not a quantity of the registry: with \<open>strict\<close> the call ends in an
  error that does not depend on the body of the function, so the function is not
  called, and the error is the \<open>ValueError\<close> of strict mode whenever nothing fails
  before the position is reached, that is, when the first two passes succeed and so
  does the conversion of the plain positions visited before it; without \<open>strict\<close>, when
  the conversion succeeds, the function is called with the value unchanged at that
  position.  When the value is a quantity of the registry and the conversion succeeds,
  in either mode, the function is called with \<open>ureg._convert\<close> of its magnitude, from
  its units to \<open>u\<close>, at that position.  All of this holds for every order in which the
  sets of positions are visited.
\<close>

theorem wraps_strict:
  assumes "wraps env ureg ret args strict = Inr wd"
    and "ndx < length args"
    and "to_units_container' env (args ! ndx) None = Inr (Some u, False)"
    and "apply_defaults func actual = Inr vals" and "ndx < length vals"
  shows "(\<not> is_quantity_of ureg (vals ! ndx) \<and> strict \<longrightarrow>
           (\<exists>e. \<forall>b. wrapper env wd (func\<lparr>body := b\<rparr>) actual = Inl e) \<and>
           (\<forall>nv1 vbn nv2 nv3.
              first_pass (w_converter wd) vals (set_order env (defs_args_ndx (w_converter wd)))
                (vals, Map.empty) = Inr (nv1, vbn) \<and>
              second_pass env ureg (w_converter wd) vals vbn
                (set_order env (dependent_args_ndx (w_converter wd))) nv1 = Inr nv2 \<and>
              third_pass ureg (w_converter wd) vals False
                (takeWhile (\<lambda>j. j \<noteq> ndx) (set_order env (unit_args_ndx (w_converter wd))))
                nv2 = Inr nv3 \<longrightarrow>
              (\<forall>b. wrapper env wd (func\<lparr>body := b\<rparr>) actual =
                     Inl (ValueError requires_quantity)))) \<and>
         (\<not> is_quantity_of ureg (vals ! ndx) \<and> \<not> strict \<longrightarrow>
           (\<forall>nv vbn. converter' env (w_converter wd) ureg vals False = Inr (nv, vbn) \<longrightarrow>
              nv ! ndx = vals ! ndx \<and>
              wrapper env wd func actual = ebind (body func nv) (finish env wd vbn))) \<and>
         (is_quantity_of ureg (vals ! ndx) \<longrightarrow>
           (\<forall>nv vbn. converter' env (w_converter wd) ureg vals strict = Inr (nv, vbn) \<longrightarrow>
              convert ureg (magnitude_of (vals ! ndx)) (units_of (vals ! ndx)) u = Inr (nv ! ndx) \<and>
              wrapper env wd func actual = ebind (body func nv) (finish env wd vbn)))"
proof -
  let ?w = "w_converter wd"
  from wraps_Inr[OF assms(1)] have p: "parse_wrap_args env args None = Inr ?w"
    and ur: "w_ureg wd = ureg" and st: "w_strict wd = strict" by blast+
  from parse_wrap_args_plain[OF p assms(2,3)] have
    m: "ndx \<in> set (unit_args_ndx ?w)" and d: "distinct (unit_args_ndx ?w)" and
    nd: "ndx \<notin> set (defs_args_ndx ?w)" and np: "ndx \<notin> set (dependent_args_ndx ?w)" and
    it: "item (args_as_uc ?w) ndx = Inr (EUnits u, False)" by blast+
  have A: "(\<exists>e. \<forall>b. wrapper env wd (func\<lparr>body := b\<rparr>) actual = Inl e) \<and>
           (\<forall>nv1 vbn nv2 nv3.
              first_pass ?w vals (set_order env (defs_args_ndx ?w)) (vals, Map.empty) =
                Inr (nv1, vbn) \<and>
              second_pass env ureg ?w vals vbn (set_order env (dependent_args_ndx ?w)) nv1 =
                Inr nv2 \<and>
              third_pass ureg ?w vals False
                (takeWhile (\<lambda>j. j \<noteq> ndx) (set_order env (unit_args_ndx ?w))) nv2 = Inr nv3 \<longrightarrow>
              (\<forall>b. wrapper env wd (func\<lparr>body := b\<rparr>) actual =
                     Inl (ValueError requires_quantity)))"
    if nq: "\<not> is_quantity_of ureg (vals ! ndx)" and s: "strict"
  proof -
    from converter_strict_fails[OF m assms(5) nq, of env] obtain e where
      "converter' env ?w ureg vals True = Inl e" by blast
    then have "converter' env ?w (w_ureg wd) vals (w_strict wd) = Inl e" using ur st s by simp
    from wrapper_body_irrelevant[OF assms(4) this]
    have 1: "\<exists>e. \<forall>b. wrapper env wd (func\<lparr>body := b\<rparr>) actual = Inl e" by blast
    have 2: "wrapper env wd (func\<lparr>body := b\<rparr>) actual = Inl (ValueError requires_quantity)"
      if r: "first_pass ?w vals (set_order env (defs_args_ndx ?w)) (vals, Map.empty) =
                Inr (nv1, vbn) \<and>
              second_pass env ureg ?w vals vbn (set_order env (dependent_args_ndx ?w)) nv1 =
                Inr nv2 \<and>
              third_pass ureg ?w vals False
                (takeWhile (\<lambda>j. j \<noteq> ndx) (set_order env (unit_args_ndx ?w))) nv2 = Inr nv3"
      for nv1 vbn nv2 nv3 b
    proof -
      from r have r1: "first_pass ?w vals (set_order env (defs_args_ndx ?w)) (vals, Map.empty) =
                Inr (nv1, vbn)"
        and r2: "second_pass env ureg ?w vals vbn (set_order env (dependent_args_ndx ?w)) nv1 =
                Inr nv2"
        and r3: "third_pass ureg ?w vals False
                (takeWhile (\<lambda>j. j \<noteq> ndx) (set_order env (unit_args_ndx ?w))) nv2 = Inr nv3"
        by blast+
      from converter_strict_value_error[OF r1 r2 r3 m assms(5) nq]
      have "converter' env ?w (w_ureg wd) vals (w_strict wd) = Inl (ValueError requires_quantity)"
        using ur st s by simp
      from wrapper_body_irrelevant[OF assms(4) this] show ?thesis .
    qed
    from 1 2 show ?thesis by blast
  qed
  have B: "nv ! ndx = vals ! ndx \<and>
              wrapper env wd func actual = ebind (body func nv) (finish env wd vbn)"
    if nq: "\<not> is_quantity_of ureg (vals ! ndx)" and s: "\<not> strict"
      and c: "converter' env ?w ureg vals False = Inr (nv, vbn)" for nv vbn
  proof -
    from converter_passes_through[OF c nd np assms(5) nq] have 1: "nv ! ndx = vals ! ndx" .
    from c have "converter' env ?w (w_ureg wd) vals (w_strict wd) = Inr (nv, vbn)"
      using ur st s by simp
    from wrapper_calls_body[OF assms(4) this] 1 show ?thesis by simp
  qed
  have C: "convert ureg (magnitude_of (vals ! ndx)) (units_of (vals ! ndx)) u = Inr (nv ! ndx) \<and>
              wrapper env wd func actual = ebind (body func nv) (finish env wd vbn)"
    if q: "is_quantity_of ureg (vals ! ndx)"
      and c: "converter' env ?w ureg vals strict = Inr (nv, vbn)" for nv vbn
  proof -
    from converter_converts[OF c m d it assms(5) q]
    have 1: "convert ureg (magnitude_of (vals ! ndx)) (units_of (vals ! ndx)) u = Inr (nv ! ndx)" .
    from c have "converter' env ?w (w_ureg wd) vals (w_strict wd) = Inr (nv, vbn)"
      using ur st by simp
    from wrapper_calls_body[OF assms(4) this] 1 show ?thesis by simp
  qed
  from A B C show ?thesis by blast
qed

lemma wraps_one_plain:
  assumes "CHR ''='' \<notin> set s" "to_units_container env (ArgStr s) None = Inr (Some m)"
    and "CHR ''='' \<notin> set t \<or> r = ArgNone" 
    and "to_units_container env r (Some (reg_id ureg)) = Inr m'" "r = ArgStr t \<or> r = ArgNone"
  shows "wraps env ureg (RetOne r) [ArgStr s] strict =
     Inr \<lparr>w_converter = \<lparr>defs_args = {}, defs_args_ndx = [], dependent_args_ndx = [],
             unit_args_ndx = [0], args_as_uc = [(EUnits m, False)]\<rparr>,
          w_ret = One (m', False), w_ureg = ureg, w_strict = strict\<rparr>"
  using assms by (auto simp: wraps_def parse_wrap_args_def to_units_container'_def)

text \<open>
  Claim C7.  With \<open>meter\<close> declared for the only argument, the wrapper of a function of
  one parameter, called with a quantity of the registry of magnitude \<open>x\<close> in units
  \<open>cm\<close>, converts \<open>x\<close> from \<open>cm\<close> to meter and calls the function with the result,
  before anything else; with the return units \<open>meter\<close> it gives what \<open>ureg.Quantity\<close>
  builds from the result and meter, which is the quantity of that number in meter when
  the function returns a number; with the return units \<open>None\<close> it gives the result of the
  function as it is.
\<close>

theorem wraps_meter:
  assumes "to_units_container env (ArgStr ''meter'') None = Inr (Some m)"
    and "to_units_container env (ArgStr ''meter'') (Some (reg_id ureg)) = Inr (Some m')"
    and "to_units_container env ArgNone (Some (reg_id ureg)) = Inr None"
    and "params func = [d]"
  shows "\<exists>wd wn. wraps env ureg (RetOne (ArgStr ''meter'')) [ArgStr ''meter''] strict = Inr wd \<and>
          wraps env ureg (RetOne ArgNone) [ArgStr ''meter''] strict = Inr wn \<and>
          wrapper env wd func [Quantity (reg_id ureg) x cm] =
            ebind (convert ureg (Num x) cm m)
              (\<lambda>y. ebind (body func [y]) (\<lambda>res. new_quantity ureg res m')) \<and>
          wrapper env wn func [Quantity (reg_id ureg) x cm] =
            ebind (convert ureg (Num x) cm m) (\<lambda>y. body func [y]) \<and>
          (\<forall>y r. convert ureg (Num x) cm m = Inr y \<and> body func [y] = Inr (Num r) \<and>
                 new_quantity ureg (Num r) m' = Inr (Quantity (reg_id ureg) r m') \<longrightarrow>
                 wrapper env wd func [Quantity (reg_id ureg) x cm] = Inr (Quantity (reg_id ureg) r m'))"
proof -
  let ?w = "\<lparr>defs_args = {}, defs_args_ndx = [], dependent_args_ndx = [],
             unit_args_ndx = [0], args_as_uc = [(EUnits m, False)]\<rparr>"
  let ?wd = "\<lparr>w_converter = ?w, w_ret = One (Some m', False), w_ureg = ureg, w_strict = strict\<rparr>"
  let ?wn = "\<lparr>w_converter = ?w, w_ret = One (None, False), w_ureg = ureg, w_strict = strict\<rparr>"
  have 1: "wraps env ureg (RetOne (ArgStr ''meter'')) [ArgStr ''meter''] strict = Inr ?wd"
    using assms(1,2) by (intro wraps_one_plain[where t="''meter''"]) auto
  have 2: "wraps env ureg (RetOne ArgNone) [ArgStr ''meter''] strict = Inr ?wn"
    using assms(1,3) by (intro wraps_one_plain[where t="''meter''"]) auto
  have ad: "apply_defaults func [Quantity (reg_id ureg) x cm] = Inr [Quantity (reg_id ureg) x cm]"
    using assms(4) by (simp add: apply_defaults_def)
  have cv: "converter' env ?w ureg [Quantity (reg_id ureg) x cm] strict =
      ebind (convert ureg (Num x) cm m) (\<lambda>y. Inr ([y], Map.empty))"
    by (cases "convert ureg (Num x) cm m") (simp_all add: converter'_def item_def)
  have fin: "finish env ?wd vbn = (\<lambda>res. new_quantity ureg res m')" for vbn
    by (rule ext) (simp add: finish_def)
  have 3: "wrapper env ?wd func [Quantity (reg_id ureg) x cm] =
            ebind (convert ureg (Num x) cm m)
              (\<lambda>y. ebind (body func [y]) (\<lambda>res. new_quantity ureg res m'))"
    by (cases "convert ureg (Num x) cm m") (simp_all add: wrapper_def ad cv fin)
  have 4: "wrapper env ?wn func [Quantity (reg_id ureg) x cm] =
            ebind (convert ureg (Num x) cm m) (\<lambda>y. body func [y])"
  proof (cases "convert ureg (Num x) cm m")
    case (Inl e)
    then show ?thesis by (simp add: wrapper_def ad cv)
  next
    case (Inr y)
    then show ?thesis
      by (cases "body func [y]") (simp_all add: wrapper_def ad cv finish_def)
  qed
  have 5: "wrapper env ?wd func [Quantity (reg_id ureg) x cm] = Inr (Quantity (reg_id ureg) r m')"
    if "convert ureg (Num x) cm m = Inr y \<and> body func [y] = Inr (Num r) \<and>
                 new_quantity ureg (Num r) m' = Inr (Quantity (reg_id ureg) r m')" for y r
    unfolding 3 using that by simp
  from 1 2 3 4 5 show ?thesis by blast
qed

lemmas wrap_eval = wraps_def parse_wrap_args_def to_units_container'_def env_sample_def
  ureg_sample_def ph_sample_def wrapper_def apply_defaults_def double_sample_def converter'_def
  item_def finish_def convert_sample_def undefined_reference_def set_order_def

text \<open>
  Claim C6 as written makes every strict call with a value that is not a quantity, at a
  position whose declared units are not \<open>None\<close>, raise \<open>ValueError\<close>.  A position
  declared \<open>=A\<close> defines the name \<open>A\<close>: the first pass takes the number 3 as it is and
  the function is called.  And with two positions declared \<open>meter\<close>, a quantity in
  kilogram at the first and the number 3 at the second, the set of the positions 0 and
  1 is visited in this order, and the conversion of the first fails before the second
  is looked at: the error is not a \<open>ValueError\<close>.
\<close>

theorem wraps_reference_counterexample:
  "wraps env_sample ureg_sample (RetOne ArgNone) [ArgStr ''=A''] True =
     Inr \<lparr>w_converter = \<lparr>defs_args = {''A''}, defs_args_ndx = [0], dependent_args_ndx = [],
             unit_args_ndx = [], args_as_uc = [(EKey ''A'', True)]\<rparr>,
          w_ret = One (None, False), w_ureg = ureg_sample, w_strict = True\<rparr> \<and>
   wrapper env_sample
     \<lparr>w_converter = \<lparr>defs_args = {''A''}, defs_args_ndx = [0], dependent_args_ndx = [],
             unit_args_ndx = [], args_as_uc = [(EKey ''A'', True)]\<rparr>,
      w_ret = One (None, False), w_ureg = ureg_sample, w_strict = True\<rparr>
     double_sample [Num 3] = Inr (Num 6) \<and>
   wraps env_sample ureg_sample (RetOne ArgNone) [ArgStr ''meter'', ArgStr ''meter''] True =
     Inr \<lparr>w_converter = \<lparr>defs_args = {}, defs_args_ndx = [], dependent_args_ndx = [],
             unit_args_ndx = [0, 1],
             args_as_uc = [(EUnits [(''meter'', 1)], False), (EUnits [(''meter'', 1)], False)]\<rparr>,
          w_ret = One (None, False), w_ureg = ureg_sample, w_strict = True\<rparr> \<and>
   wrapper env_sample
     \<lparr>w_converter = \<lparr>defs_args = {}, defs_args_ndx = [], dependent_args_ndx = [],
             unit_args_ndx = [0, 1],
             args_as_uc = [(EUnits [(''meter'', 1)], False), (EUnits [(''meter'', 1)], False)]\<rparr>,
      w_ret = One (None, False), w_ureg = ureg_sample, w_strict = True\<rparr>
     (double_sample\<lparr>params := [None, None]\<rparr>) [Quantity 0 1 [(''kilogram'', 1)], Num 3] =
     Inl DimensionalityError"
  by (simp add: wrap_eval)

theorem wraps_strict_witness:
  "wrapper env_sample
     \<lparr>w_converter = \<lparr>defs_args = {}, defs_args_ndx = [], dependent_args_ndx = [],
             unit_args_ndx = [0], args_as_uc = [(EUnits [(''meter'', 1)], False)]\<rparr>,
      w_ret = One (Some [(''meter'', 1)], False), w_ureg = ureg_sample, w_strict = True\<rparr>
     double_sample [Num 3] = Inl (ValueError requires_quantity) \<and>
   wrapper env_sample
     \<lparr>w_converter = \<lparr>defs_args = {}, defs_args_ndx = [], dependent_args_ndx = [],
             unit_args_ndx = [0], args_as_uc = [(EUnits [(''meter'', 1)], False)]\<rparr>,
      w_ret = One (Some [(''meter'', 1)], False), w_ureg = ureg_sample, w_strict = False\<rparr>
     double_sample [Num 3] = Inr (Quantity 0 6 [(''meter'', 1)]) \<and>
   convert ureg_sample (Num 250) [(''centimeter'', 1)] [(''meter'', 1)] = Inr (Num (5 / 2)) \<and>
   wrapper env_sample
     \<lparr>w_converter = \<lparr>defs_args = {}, defs_args_ndx = [], dependent_args_ndx = [],
             unit_args_ndx = [0, 1],
             args_as_uc = [(EUnits [(''meter'', 1)], False), (EUnits [(''meter'', 1)], False)]\<rparr>,
      w_ret = One (None, False), w_ureg = ureg_sample, w_strict = True\<rparr>
     (double_sample\<lparr>params := [None, None]\<rparr>) [Num 3, Quantity 0 1 [(''kilogram'', 1)]] =
     Inl (ValueError requires_quantity)"
proof -
  let ?w = "\<lparr>defs_args = {}, defs_args_ndx = [], dependent_args_ndx = [],
             unit_args_ndx = [0], args_as_uc = [(EUnits [(''meter'', 1)], False)]\<rparr>"
  let ?wd2 = "\<lparr>w_converter = \<lparr>defs_args = {}, defs_args_ndx = [], dependent_args_ndx = [],
             unit_args_ndx = [0, 1],
             args_as_uc = [(EUnits [(''meter'', 1)], False), (EUnits [(''meter'', 1)], False)]\<rparr>,
      w_ret = One (None, False), w_ureg = ureg_sample, w_strict = True\<rparr>"
  let ?f2 = "double_sample\<lparr>params := [None, None]\<rparr>"
  let ?v2 = "[Num 3, Quantity 0 1 [(''kilogram'', 1)]]"
  have W2: "wraps env_sample ureg_sample (RetOne ArgNone) [ArgStr ''meter'', ArgStr ''meter''] True =
              Inr ?wd2"
    by (simp add: wrap_eval)
  have n2: "(0::nat) < length [ArgStr ''meter'', ArgStr ''meter'']" by simp
  have t2: "to_units_container' env_sample ([ArgStr ''meter'', ArgStr ''meter''] ! 0) None =
              Inr (Some [(''meter'', 1)], False)"
    by (simp add: wrap_eval)
  have a3: "apply_defaults ?f2 ?v2 = Inr ?v2" by (simp add: wrap_eval)
  have l3: "(0::nat) < length ?v2" by simp
  have b2: "?f2\<lparr>body := body double_sample\<rparr> = ?f2" by simp
  have nq: "\<not> is_quantity_of ureg_sample (?v2 ! 0) \<and> True" by simp
  have o: "set_order env_sample [0, Suc 0] = [0, Suc 0]"
    by (simp add: set_order_def env_sample_def)
  have p1: "first_pass (w_converter ?wd2) ?v2
              (set_order env_sample (defs_args_ndx (w_converter ?wd2))) (?v2, Map.empty) =
              Inr (?v2, Map.empty)"
    by simp
  have p2: "second_pass env_sample ureg_sample (w_converter ?wd2) ?v2 Map.empty
              (set_order env_sample (dependent_args_ndx (w_converter ?wd2))) ?v2 = Inr ?v2"
    by simp
  have p3: "third_pass ureg_sample (w_converter ?wd2) ?v2 False
              (takeWhile (\<lambda>j. j \<noteq> 0)
                 (set_order env_sample (unit_args_ndx (w_converter ?wd2)))) ?v2 = Inr ?v2"
    by (simp add: o)
  from wraps_strict[OF W2 n2 t2 a3 l3] nq p1 p2 p3
  have "\<forall>b. wrapper env_sample ?wd2 (?f2\<lparr>body := b\<rparr>) ?v2 = Inl (ValueError requires_quantity)"
    by blast
  then have 4: "wrapper env_sample ?wd2 ?f2 ?v2 = Inl (ValueError requires_quantity)"
    using b2 by metis
  let ?wd = "\<lambda>s. \<lparr>w_converter = ?w, w_ret = One (Some [(''meter'', 1)], False),
                  w_ureg = ureg_sample, w_strict = s\<rparr>"
  have W: "wraps env_sample ureg_sample (RetOne (ArgStr ''meter'')) [ArgStr ''meter''] s = Inr (?wd s)" for s
    by (simp add: wrap_eval)
  have n: "(0::nat) < length [ArgStr ''meter'']" by simp
  have t: "to_units_container' env_sample ([ArgStr ''meter''] ! 0) None = Inr (Some [(''meter'', 1)], False)"
    by (simp add: wrap_eval)
  have a: "apply_defaults double_sample [Num 3] = Inr [Num 3]" by (simp add: wrap_eval)
  have a2: "apply_defaults double_sample [Quantity 0 250 [(''centimeter'', 1)]] =
              Inr [Quantity 0 250 [(''centimeter'', 1)]]" by (simp add: wrap_eval)
  have c: "converter' env_sample ?w ureg_sample [Num 3] False = Inr ([Num 3], Map.empty)"
    by (simp add: wrap_eval)
  have c2: "converter' env_sample ?w ureg_sample [Quantity 0 250 [(''centimeter'', 1)]] True =
              Inr ([Num (5 / 2)], Map.empty)"
    by (simp add: wrap_eval)
  have b: "double_sample\<lparr>body := body double_sample\<rparr> = double_sample" by simp
  have l: "(0::nat) < length [Num 3]" by simp
  have l2: "(0::nat) < length [Quantity 0 250 [(''centimeter'', 1)]]" by simp
  from wraps_strict[OF W[of True] n t a l]
  have "\<forall>b. wrapper env_sample (?wd True) (double_sample\<lparr>body := b\<rparr>) [Num 3] =
          Inl (ValueError requires_quantity)"
    by (simp add: ureg_sample_def)
  then have 1: "wrapper env_sample (?wd True) double_sample [Num 3] = Inl (ValueError requires_quantity)"
    using b by metis
  from wraps_strict[OF W[of False] n t a l]
  have "wrapper env_sample (?wd False) double_sample [Num 3] =
          ebind (body double_sample [Num 3]) (finish env_sample (?wd False) Map.empty)"
    using c by (simp add: ureg_sample_def)
  then have 2: "wrapper env_sample (?wd False) double_sample [Num 3] = Inr (Quantity 0 6 [(''meter'', 1)])"
    by (simp add: double_sample_def finish_def ureg_sample_def)
  from wraps_strict[OF W[of True] n t a2 l2]
  have 3: "convert ureg_sample (Num 250) [(''centimeter'', 1)] [(''meter'', 1)] = Inr (Num (5 / 2))"
    using c2 by (simp add: ureg_sample_def)
  from 1 2 3 4 show ?thesis by blast
qed

theorem wraps_meter_witness:
  "wraps env_sample ureg_sample (RetOne (ArgStr ''meter'')) [ArgStr ''meter''] True =
     Inr \<lparr>w_converter = \<lparr>defs_args = {}, defs_args_ndx = [], dependent_args_ndx = [],
             unit_args_ndx = [0], args_as_uc = [(EUnits [(''meter'', 1)], False)]\<rparr>,
          w_ret = One (Some [(''meter'', 1)], False), w_ureg = ureg_sample, w_strict = True\<rparr> \<and>
   wrapper env_sample
     \<lparr>w_converter = \<lparr>defs_args = {}, defs_args_ndx = [], dependent_args_ndx = [],
             unit_args_ndx = [0], args_as_uc = [(EUnits [(''meter'', 1)], False)]\<rparr>,
      w_ret = One (Some [(''meter'', 1)], False), w_ureg = ureg_sample, w_strict = True\<rparr>
     double_sample [Quantity 0 250 [(''centimeter'', 1)]] = Inr (Quantity 0 5 [(''meter'', 1)]) \<and>
   wrapper env_sample
     \<lparr>w_converter = \<lparr>defs_args = {}, defs_args_ndx = [], dependent_args_ndx = [],
             unit_args_ndx = [0], args_as_uc = [(EUnits [(''meter'', 1)], False)]\<rparr>,
      w_ret = One (None, False), w_ureg = ureg_sample, w_strict = True\<rparr>
     double_sample [Quantity 0 250 [(''centimeter'', 1)]] = Inr (Num 5)"
proof -
  let ?w = "\<lparr>defs_args = {}, defs_args_ndx = [], dependent_args_ndx = [],
             unit_args_ndx = [0], args_as_uc = [(EUnits [(''meter'', 1)], False)]\<rparr>"
  let ?wd = "\<lparr>w_converter = ?w, w_ret = One (Some [(''meter'', 1)], False),
                  w_ureg = ureg_sample, w_strict = True\<rparr>"
  let ?wn = "\<lparr>w_converter = ?w, w_ret = One (None, False),
                  w_ureg = ureg_sample, w_strict = True\<rparr>"
  have h1: "to_units_container env_sample (ArgStr ''meter'') None = Inr (Some [(''meter'', 1)])"
    by (simp add: env_sample_def ph_sample_def)
  have h2: "to_units_container env_sample (ArgStr ''meter'') (Some (reg_id ureg_sample)) =
              Inr (Some [(''meter'', 1)])"
    by (simp add: env_sample_def ph_sample_def)
  have h3: "to_units_container env_sample ArgNone (Some (reg_id ureg_sample)) = Inr None"
    by (simp add: env_sample_def)
  have h4: "params double_sample = [None]" by (simp add: double_sample_def)
  have W: "wraps env_sample ureg_sample (RetOne (ArgStr ''meter'')) [ArgStr ''meter''] True = Inr ?wd"
    by (simp add: wrap_eval)
  have Wn: "wraps env_sample ureg_sample (RetOne ArgNone) [ArgStr ''meter''] True = Inr ?wn"
    by (simp add: wrap_eval)
  from wraps_meter[OF h1 h2 h3 h4, of True 250 "[(''centimeter'', 1)]"] W Wn
  have "wrapper env_sample ?wd double_sample [Quantity (reg_id ureg_sample) 250 [(''centimeter'', 1)]] =
            ebind (convert ureg_sample (Num 250) [(''centimeter'', 1)] [(''meter'', 1)])
              (\<lambda>y. ebind (body double_sample [y]) (\<lambda>res. new_quantity ureg_sample res [(''meter'', 1)]))"
    and "wrapper env_sample ?wn double_sample [Quantity (reg_id ureg_sample) 250 [(''centimeter'', 1)]] =
            ebind (convert ureg_sample (Num 250) [(''centimeter'', 1)] [(''meter'', 1)])
              (\<lambda>y. body double_sample [y])"
    by auto
  then have "wrapper env_sample ?wd double_sample [Quantity 0 250 [(''centimeter'', 1)]] =
               Inr (Quantity 0 5 [(''meter'', 1)])"
    and "wrapper env_sample ?wn double_sample [Quantity 0 250 [(''centimeter'', 1)]] = Inr (Num 5)"
    by (simp_all add: ureg_sample_def convert_sample_def double_sample_def)
  with W show ?thesis by blast
qed

section \<open>The application registry\<close>

text \<open>
  Claim C10.  \<open>set_application_registry\<close> of an object that is neither a
  \<open>UnitRegistry\<close> nor a \<open>LazyRegistry\<close> raises \<open>TypeError\<close> and leaves the state of the
  module, and so the application registry, as it was; of a registry it succeeds, and
  \<open>get_application_registry\<close> then returns that same object.
\<close>

theorem set_application_registry_checks:
  "(\<not> is_registry registry \<longrightarrow>
      fst (set_application_registry registry s) = Inl (TypeError ''Expected UnitRegistry'') \<and>
      snd (set_application_registry registry s) = s \<and>
      get_application_registry (snd (set_application_registry registry s)) =
        get_application_registry s) \<and>
   (is_registry registry \<longrightarrow>
      fst (set_application_registry registry s) = Inr () \<and>
      get_application_registry (snd (set_application_registry registry s)) = registry)"
  by (simp add: set_application_registry_def get_application_registry_def)

theorem set_application_registry_checks_witness:
  "fst (set_application_registry (Object 7 OtherClass) initial_state) =
     Inl (TypeError ''Expected UnitRegistry'') \<and>
   get_application_registry (snd (set_application_registry (Object 7 OtherClass) initial_state)) =
     Object 0 LazyRegistry \<and>
   fst (set_application_registry (Object 5 UnitRegistry) initial_state) = Inr () \<and>
   get_application_registry (snd (set_application_registry (Object 5 UnitRegistry) initial_state)) =
     Object 5 UnitRegistry"
  using set_application_registry_checks [of "Object 7 OtherClass" initial_state]
    set_application_registry_checks [of "Object 5 UnitRegistry" initial_state]
  by (simp add: is_registry_def get_application_registry_def initial_state_def)

section \<open>The rendering of the loader errors\<close>

lemma show_123: "show_int 123 = ''123''"
  by (simp add: show_int_def digit_def)

text \<open>
  Claim C8.  A \<open>DefinitionSyntaxError\<close> renders as its bare message when it has neither
  file name nor line number, as \<open>In line <n>: <msg>\<close> with the line number only, as
  \<open>While opening <file>: <msg>\<close> with the file name only, and as
  \<open>While opening <file>, in line <n>: <msg>\<close> with both, also when both are attached
  after the construction; a \<open>RedefinitionError\<close> puts the same prefix before its own
  message, whether the attributes were given to the constructor or attached later.
  The last two equations are the strings of the tests.
\<close>

theorem loader_error_rendering:
  "str_definition_syntax_error (DefinitionSyntaxError msg None None) = msg \<and>
   str_definition_syntax_error (DefinitionSyntaxError msg None (Some n)) =
     ''In line '' @ show_int n @ '': '' @ msg \<and>
   str_definition_syntax_error (DefinitionSyntaxError msg (Some f) None) =
     ''While opening '' @ f @ '': '' @ msg \<and>
   str_definition_syntax_error (DefinitionSyntaxError msg (Some f) (Some n)) =
     ''While opening '' @ f @ '', in line '' @ show_int n @ '': '' @ msg \<and>
   str_definition_syntax_error
     ((DefinitionSyntaxError msg None None)\<lparr>dse_filename := Some f, dse_lineno := Some n\<rparr>) =
     ''While opening '' @ f @ '', in line '' @ show_int n @ '': '' @ msg \<and>
   str_redefinition_error (RedefinitionError nm ty fnm lno) =
     error_prefix fnm lno @ str_redefinition_error (RedefinitionError nm ty None None) \<and>
   str_redefinition_error ((RedefinitionError nm ty None None)\<lparr>re_filename := fnm, re_lineno := lno\<rparr>) =
     str_redefinition_error (RedefinitionError nm ty fnm lno) \<and>
   str_definition_syntax_error (DefinitionSyntaxError ''foo'' (Some ''a.txt'') (Some 123)) =
     ''While opening a.txt, in line 123: foo'' \<and>
   str_redefinition_error (RedefinitionError ''foo'' ''bar'' None (Some 123)) =
     ''In line 123: Cannot redefine '' @ [CHR 0x27] @ ''foo'' @ [CHR 0x27] @ '' (bar)''"
  by (simp add: str_definition_syntax_error_def DefinitionSyntaxError_def error_prefix_def
      str_redefinition_error_def RedefinitionError_def show_123)

end
